theory Spec2Isabelle
  imports Complex_Main
begin

section \<open>Data model of \<^verbatim>\<open>metabase/lib/dataset.js\<close>\<close>

text \<open>
  The values a result cell can hold (\<^verbatim>\<open>Value\<close> of the dataset types): what JSON delivers.
  JavaScript numbers are idealised as reals; \<^verbatim>\<open>NaN\<close> and the infinities, which JSON cannot
  carry, are left out.
\<close>

datatype Value = VNull | VBool bool | VNum real | VStr string

text \<open>
  An MBQL field reference is a JavaScript array of JSON values such as
  \<^verbatim>\<open>["field-id", 1]\<close> or \<^verbatim>\<open>["datetime-field", ["field-id", 1], "month"]\<close>. Field ids and
  aggregation indexes are integers.
\<close>

datatype json = JNull | JNum int | JStr string | JArr "json list"

type_synonym FieldReference = "json list"

text \<open>\<^verbatim>\<open>column.id\<close> is a field id or, for nested queries, already a field reference.\<close>

datatype ColumnId = FieldId int | FieldRefId FieldReference

record BinningInfo =
  bin_width :: "real option"

text \<open>
  A result column. Optional attributes are \<open>None\<close> when they are \<^verbatim>\<open>null\<close> or
  \<^verbatim>\<open>undefined\<close> (the source tests them with \<^verbatim>\<open>!= null\<close> or for truthiness of an object).
  Columns are JavaScript objects, and \<^verbatim>\<open>indexOf\<close> compares objects by identity: \<open>oid\<close> is
  the identity of the object, so that two column values are equal exactly when they are
  the same object.
\<close>

record Column =
  oid :: nat
  id_field :: "ColumnId option"
  fk_field_id :: "int option"
  expression_name :: "string option"
  source :: "string option"
  name :: string
  binning_info :: "BinningInfo option"

record ColumnSetting =
  setting_name :: string
  fieldRef :: "FieldReference option"
  enabled :: bool

record DatasetData =
  rows :: "Value list list"

section \<open>Library functions used by the module\<close>

text \<open>
  \<^verbatim>\<open>_.isEqual\<close> on arrays compares the lengths and then the elements pairwise; on
  scalars of the same type it compares the values, and \<^verbatim>\<open>null\<close> is equal to
  \<^verbatim>\<open>null\<close> only.
\<close>

fun isEqualValue :: "Value \<Rightarrow> Value \<Rightarrow> bool" where
  "isEqualValue VNull VNull = True"
| "isEqualValue (VBool a) (VBool b) = (a = b)"
| "isEqualValue (VNum a) (VNum b) = (a = b)"
| "isEqualValue (VStr a) (VStr b) = (a = b)"
| "isEqualValue _ _ = False"

definition isEqualRows :: "Value list list \<Rightarrow> Value list list \<Rightarrow> bool" where
  "isEqualRows a b = list_all2 (list_all2 isEqualValue) a b"

text \<open>
  \<^verbatim>\<open>_.findIndex(array, predicate)\<close>: the index of the first element that satisfies the
  predicate, \<open>-1\<close> when there is none.
\<close>

fun findIndexFrom :: "('a \<Rightarrow> bool) \<Rightarrow> 'a list \<Rightarrow> int \<Rightarrow> int" where
  "findIndexFrom P [] i = -1"
| "findIndexFrom P (x # xs) i = (if P x then i else findIndexFrom P xs (i + 1))"

definition findIndex :: "'a list \<Rightarrow> ('a \<Rightarrow> bool) \<Rightarrow> int" where
  "findIndex xs P = findIndexFrom P xs 0"

text \<open>\<^verbatim>\<open>Array.prototype.indexOf\<close>: the first index holding the searched element, or \<open>-1\<close>.\<close>

definition indexOf :: "'a list \<Rightarrow> 'a \<Rightarrow> int" where
  "indexOf xs x = findIndexFrom (\<lambda>y. y = x) xs 0"

text \<open>\<^verbatim>\<open>_.isEqual\<close> on field references: arrays of JSON values, compared in depth.\<close>

fun isEqualJson :: "json \<Rightarrow> json \<Rightarrow> bool"
  and isEqual :: "json list \<Rightarrow> json list \<Rightarrow> bool" where
  "isEqualJson JNull JNull = True"
| "isEqualJson (JNum a) (JNum b) = (a = b)"
| "isEqualJson (JStr a) (JStr b) = (a = b)"
| "isEqualJson (JArr xs) (JArr ys) = isEqual xs ys"
| "isEqualJson _ _ = False"
| "isEqual [] [] = True"
| "isEqual (x # xs) (y # ys) = (isEqualJson x y \<and> isEqual xs ys)"
| "isEqual _ _ = False"

text \<open>
  \<^verbatim>\<open>JSON.stringify\<close> (ECMAScript, \<^verbatim>\<open>SerializeJSONProperty\<close>) on the JSON values above,
  without indentation. An integer is printed in decimal, with a minus sign when negative
  (JavaScript switches to exponent notation from \<open>10^21\<close> on; field ids and aggregation
  indexes are far below). A string is quoted (\<^verbatim>\<open>QuoteJSONString\<close>): backspace, tab, line
  feed, form feed, carriage return, the quotation mark and the backslash have their
  two-character escapes, any other character below \<open>0x20\<close> is written \<^verbatim>\<open>\u00XX\<close> with
  lowercase hexadecimal digits, and every other character stands for itself. An array is
  its elements separated by commas, in brackets. The characters of a string are the 8-bit
  characters of HOL.
\<close>

definition digitChar :: "nat \<Rightarrow> char" where
  "digitChar n = char_of (48 + n)"

definition hexDigit :: "nat \<Rightarrow> char" where
  "hexDigit n = (if n < 10 then char_of (48 + n) else char_of (87 + n))"

fun digitsOf :: "nat \<Rightarrow> string" where
  "digitsOf n = (if n < 10 then [digitChar n] else digitsOf (n div 10) @ [digitChar (n mod 10)])"

definition numberToString :: "int \<Rightarrow> string" where
  "numberToString i = (if i < 0 then CHR ''-'' # digitsOf (nat (- i)) else digitsOf (nat i))"

definition escapeChar :: "char \<Rightarrow> string" where
  "escapeChar c =
     (if c = CHR 0x08 then [CHR 0x5C, CHR ''b'']
      else if c = CHR 0x09 then [CHR 0x5C, CHR ''t'']
      else if c = CHR 0x0A then [CHR 0x5C, CHR ''n'']
      else if c = CHR 0x0C then [CHR 0x5C, CHR ''f'']
      else if c = CHR 0x0D then [CHR 0x5C, CHR ''r'']
      else if c = CHR 0x22 then [CHR 0x5C, CHR 0x22]
      else if c = CHR 0x5C then [CHR 0x5C, CHR 0x5C]
      else if (of_char c :: nat) < 0x20 then
        [CHR 0x5C, CHR ''u'', CHR ''0'', CHR ''0'',
         hexDigit (of_char c div 16), hexDigit (of_char c mod 16)]
      else [c])"

definition quoteJSONString :: "string \<Rightarrow> string" where
  "quoteJSONString s = CHR 0x22 # concat (map escapeChar s) @ [CHR 0x22]"

fun joinComma :: "string list \<Rightarrow> string" where
  "joinComma [] = []"
| "joinComma (x # xs) = x @ (if xs = [] then [] else CHR '','' # joinComma xs)"

fun stringify :: "json \<Rightarrow> string" where
  "stringify JNull = ''null''"
| "stringify (JNum i) = numberToString i"
| "stringify (JStr s) = quoteJSONString s"
| "stringify (JArr xs) = CHR ''['' # joinComma (map stringify xs) @ [CHR '']'']"

text \<open>
  The module imports \<^verbatim>\<open>Dimension\<close> from \<^verbatim>\<open>metabase-lib/lib/Dimension\<close>, whose code is not
  part of the module. Its operations are parameters of the model: the static
  \<^verbatim>\<open>Dimension.parseMBQL\<close> (which may return \<^verbatim>\<open>null\<close>, and is also called on an absent
  reference) and the methods \<^verbatim>\<open>mbql()\<close> and \<^verbatim>\<open>isSameBaseDimension(other)\<close> of a
  dimension \<open>'d\<close>.
\<close>

record 'd DimensionLib =
  parseMBQL :: "FieldReference option \<Rightarrow> 'd option"
  mbql :: "'d \<Rightarrow> FieldReference"
  isSameBaseDimension :: "'d \<Rightarrow> 'd \<Rightarrow> bool"

text \<open>
  Likewise the question and its structured query (\<^verbatim>\<open>metabase-lib\<close>) are parameters:
  \<^verbatim>\<open>question.query()\<close>, which is a \<^verbatim>\<open>StructuredQuery\<close> or some other query,
  \<^verbatim>\<open>question.settings()["table.columns"]\<close>, and the methods of a structured query \<open>'q\<close>.
  Each of them returns a new value and changes nothing.
\<close>

datatype 'q Query = StructuredQuery 'q | OtherQuery

record ('qn, 'q, 'd) QueryLib =
  query :: "'qn \<Rightarrow> 'q Query"
  table_columns :: "'qn \<Rightarrow> ColumnSetting list option"
  clearFields :: "'q \<Rightarrow> 'q"
  addField :: "'q \<Rightarrow> FieldReference \<Rightarrow> 'q"
  columnDimensions :: "'q \<Rightarrow> 'd list"
  columnNames :: "'q \<Rightarrow> string list"
  question :: "'q \<Rightarrow> 'qn"

text \<open>Calling a method of \<^verbatim>\<open>undefined\<close> throws a \<^verbatim>\<open>TypeError\<close>.\<close>

datatype error = TypeError

section \<open>The functions of the module\<close>

definition datasetContainsNoResults :: "DatasetData \<Rightarrow> bool" where
  "datasetContainsNoResults data \<longleftrightarrow>
     length (rows data) = 0 \<or> isEqualRows (rows data) [[VNull]]"

text \<open>
  \<^verbatim>\<open>rangeForValue\<close>: the guard is a chain of truthiness tests, and the number \<open>0\<close> is
  falsy. \<open>None\<close> is \<^verbatim>\<open>undefined\<close> (the function falls off its end).
\<close>

definition rangeForValue :: "Value \<Rightarrow> Column option \<Rightarrow> (real \<times> real) option" where
  "rangeForValue v column =
     (case v of
        VNum n \<Rightarrow>
          (case column of
             None \<Rightarrow> None
           | Some c \<Rightarrow>
               (case binning_info c of
                  None \<Rightarrow> None
                | Some b \<Rightarrow>
                    (case bin_width b of
                       None \<Rightarrow> None
                     | Some w \<Rightarrow> if w \<noteq> 0 then Some (n, n + w) else None)))
      | _ \<Rightarrow> None)"

definition fieldRefForColumn :: "Column \<Rightarrow> Column list option \<Rightarrow> FieldReference option" where
  "fieldRefForColumn column columns =
     (case id_field column of
        Some cid \<Rightarrow>
          (case cid of
             FieldRefId r \<Rightarrow> Some r
           | FieldId i \<Rightarrow>
               (case fk_field_id column of
                  Some fk \<Rightarrow> Some [JStr ''fk->'', JNum fk, JNum i]
                | None \<Rightarrow> Some [JStr ''field-id'', JNum i]))
      | None \<Rightarrow>
          (case expression_name column of
             Some e \<Rightarrow> Some [JStr ''expression'', JStr e]
           | None \<Rightarrow>
               if source column = Some ''aggregation'' then
                 (case columns of
                    Some cs \<Rightarrow>
                      (let aggIndex =
                             indexOf (filter (\<lambda>c. source c = Some ''aggregation'') cs) column
                       in if aggIndex \<ge> 0 then Some [JStr ''aggregation'', JNum aggIndex]
                          else None)
                  | None \<Rightarrow> None)
               else None))"

text \<open>
  \<^verbatim>\<open>keyForColumn\<close> calls \<^verbatim>\<open>fieldRefForColumn\<close> without the columns; a reference is an
  array and so is truthy.
\<close>

definition keyForColumn :: "Column \<Rightarrow> string" where
  "keyForColumn column =
     (case fieldRefForColumn column None of
        Some ref \<Rightarrow> stringify (JArr [JStr ''ref'', JArr ref])
      | None \<Rightarrow> stringify (JArr [JStr ''name'', JStr (name column)]))"

definition normalizeFieldRef :: "'d DimensionLib \<Rightarrow> FieldReference option \<Rightarrow> FieldReference option" where
  "normalizeFieldRef D ref =
     (case parseMBQL D ref of
        None \<Rightarrow> None
      | Some dimension \<Rightarrow> Some (mbql D dimension))"

text \<open>
  In \<^verbatim>\<open>findColumnIndexForColumnSetting\<close> the first argument of \<^verbatim>\<open>_.isEqual\<close> is a
  reference that is not \<^verbatim>\<open>null\<close>, so a column whose reference normalizes to
  \<^verbatim>\<open>null\<close> does not match.
\<close>

definition findColumnIndexForColumnSetting ::
    "'d DimensionLib \<Rightarrow> Column list \<Rightarrow> ColumnSetting \<Rightarrow> int" where
  "findColumnIndexForColumnSetting D columns columnSetting =
     (let byName = findIndex columns (\<lambda>col. name col = setting_name columnSetting)
      in case normalizeFieldRef D (fieldRef columnSetting) of
           Some ref \<Rightarrow>
             (let index =
                    findIndex columns
                      (\<lambda>col. case normalizeFieldRef D (fieldRefForColumn col None) of
                               Some r \<Rightarrow> isEqual ref r
                             | None \<Rightarrow> False)
              in if index \<ge> 0 then index else byName)
         | None \<Rightarrow> byName)"

text \<open>
  \<^verbatim>\<open>columns[index]\<close> past the end of the array is \<^verbatim>\<open>undefined\<close>, which the result type
  \<^verbatim>\<open>?Column\<close> does not tell from \<^verbatim>\<open>null\<close>.
\<close>

definition findColumnForColumnSetting ::
    "'d DimensionLib \<Rightarrow> Column list \<Rightarrow> ColumnSetting \<Rightarrow> Column option" where
  "findColumnForColumnSetting D columns columnSetting =
     (let index = findColumnIndexForColumnSetting D columns columnSetting
      in if index \<ge> 0 then
           (if nat index < length columns then Some (columns ! nat index) else None)
         else None)"

text \<open>
  The loop of \<^verbatim>\<open>syncTableColumnsToQuery\<close> over the column settings. Its state is the
  query and the settings reported by \<^verbatim>\<open>console.warn("Unknown column", columnSetting)\<close> so
  far. An array is truthy (also when empty) and the empty string is falsy.
  \<^verbatim>\<open>columnDimensions[index].mbql()\<close> throws when the index is past the end of
  \<^verbatim>\<open>columnDimensions\<close>.
\<close>

fun syncTableColumnsToQuery_loop ::
    "'d DimensionLib \<Rightarrow> ('qn, 'q, 'd) QueryLib \<Rightarrow> 'd list \<Rightarrow> string list \<Rightarrow> ColumnSetting list
      \<Rightarrow> 'q \<Rightarrow> ColumnSetting list \<Rightarrow> error + ('q \<times> ColumnSetting list)" where
  "syncTableColumnsToQuery_loop D Q dims names [] q warned = Inr (q, warned)"
| "syncTableColumnsToQuery_loop D Q dims names (columnSetting # rest) q warned =
     (if enabled columnSetting then
        (case fieldRef columnSetting of
           Some ref \<Rightarrow> syncTableColumnsToQuery_loop D Q dims names rest (addField Q q ref) warned
         | None \<Rightarrow>
             if setting_name columnSetting \<noteq> [] then
               (let index = findIndex names (\<lambda>name. name = setting_name columnSetting)
                in if index \<ge> 0 then
                     (if nat index < length dims then
                        syncTableColumnsToQuery_loop D Q dims names rest
                          (addField Q q (mbql D (dims ! nat index))) warned
                      else Inl TypeError)
                   else
                     syncTableColumnsToQuery_loop D Q dims names rest q (warned @ [columnSetting]))
             else syncTableColumnsToQuery_loop D Q dims names rest q (warned @ [columnSetting]))
      else syncTableColumnsToQuery_loop D Q dims names rest q warned)"

text \<open>
  \<^verbatim>\<open>syncTableColumnsToQuery\<close> returns the question and, beside it, what was written to the
  console.
\<close>

definition syncTableColumnsToQuery ::
    "'d DimensionLib \<Rightarrow> ('qn, 'q, 'd) QueryLib \<Rightarrow> 'qn \<Rightarrow> error + ('qn \<times> ColumnSetting list)" where
  "syncTableColumnsToQuery D Q qn =
     (case table_columns Q qn of
        Some columnSettings \<Rightarrow>
          (case query Q qn of
             StructuredQuery q \<Rightarrow>
               (let q0 = clearFields Q q;
                    dims = columnDimensions Q q0;
                    names = columnNames Q q0
                in case syncTableColumnsToQuery_loop D Q dims names columnSettings q0 [] of
                     Inl e \<Rightarrow> Inl e
                   | Inr (q1, warned) \<Rightarrow>
                       (let newDims = columnDimensions Q q1
                        in if length dims = length newDims
                              \<and> list_all (\<lambda>i. isSameBaseDimension D (dims ! i) (newDims ! i))
                                    [0..<length dims]
                           then Inr (question Q (clearFields Q q1), warned)
                           else Inr (question Q q1, warned)))
           | OtherQuery \<Rightarrow> Inr (qn, []))
      | None \<Rightarrow> Inr (qn, []))"

text \<open>
  The declared type of \<^verbatim>\<open>table.columns\<close> is an array of \<^verbatim>\<open>ColumnSetting\<close> objects, and
  the two definitions above follow it. JavaScript does not check the declaration, and the
  array is persisted JSON: an entry can be \<^verbatim>\<open>null\<close>. The module has no test for that
  anywhere, and reading \<^verbatim>\<open>columnSetting.enabled\<close> of \<^verbatim>\<open>null\<close> throws a \<^verbatim>\<open>TypeError\<close>.
  The loop and the function once more, on an array whose entries may be \<^verbatim>\<open>null\<close>
  (\<open>None\<close>); the array is the value of \<^verbatim>\<open>question.settings()["table.columns"]\<close>.
\<close>

fun syncTableColumnsToQuery_loop_untyped ::
    "'d DimensionLib \<Rightarrow> ('qn, 'q, 'd) QueryLib \<Rightarrow> 'd list \<Rightarrow> string list
      \<Rightarrow> ColumnSetting option list \<Rightarrow> 'q \<Rightarrow> ColumnSetting list
      \<Rightarrow> error + ('q \<times> ColumnSetting list)" where
  "syncTableColumnsToQuery_loop_untyped D Q dims names [] q warned = Inr (q, warned)"
| "syncTableColumnsToQuery_loop_untyped D Q dims names (None # rest) q warned = Inl TypeError"
| "syncTableColumnsToQuery_loop_untyped D Q dims names (Some columnSetting # rest) q warned =
     (if enabled columnSetting then
        (case fieldRef columnSetting of
           Some ref \<Rightarrow>
             syncTableColumnsToQuery_loop_untyped D Q dims names rest (addField Q q ref) warned
         | None \<Rightarrow>
             if setting_name columnSetting \<noteq> [] then
               (let index = findIndex names (\<lambda>name. name = setting_name columnSetting)
                in if index \<ge> 0 then
                     (if nat index < length dims then
                        syncTableColumnsToQuery_loop_untyped D Q dims names rest
                          (addField Q q (mbql D (dims ! nat index))) warned
                      else Inl TypeError)
                   else
                     syncTableColumnsToQuery_loop_untyped D Q dims names rest q
                       (warned @ [columnSetting]))
             else
               syncTableColumnsToQuery_loop_untyped D Q dims names rest q
                 (warned @ [columnSetting]))
      else syncTableColumnsToQuery_loop_untyped D Q dims names rest q warned)"

definition syncTableColumnsToQuery_untyped ::
    "'d DimensionLib \<Rightarrow> ('qn, 'q, 'd) QueryLib \<Rightarrow> ColumnSetting option list option \<Rightarrow> 'qn
      \<Rightarrow> error + ('qn \<times> ColumnSetting list)" where
  "syncTableColumnsToQuery_untyped D Q tableColumns qn =
     (case tableColumns of
        Some columnSettings \<Rightarrow>
          (case query Q qn of
             StructuredQuery q \<Rightarrow>
               (let q0 = clearFields Q q;
                    dims = columnDimensions Q q0;
                    names = columnNames Q q0
                in case syncTableColumnsToQuery_loop_untyped D Q dims names columnSettings q0 [] of
                     Inl e \<Rightarrow> Inl e
                   | Inr (q1, warned) \<Rightarrow>
                       (let newDims = columnDimensions Q q1
                        in if length dims = length newDims
                              \<and> list_all (\<lambda>i. isSameBaseDimension D (dims ! i) (newDims ! i))
                                    [0..<length dims]
                           then Inr (question Q (clearFields Q q1), warned)
                           else Inr (question Q q1, warned)))
           | OtherQuery \<Rightarrow> Inr (qn, []))
      | None \<Rightarrow> Inr (qn, []))"

section \<open>The reconciliation as the specification describes it\<close>

text \<open>
  The field a column setting contributes: its \<^verbatim>\<open>fieldRef\<close> if it carries one; else, if it
  carries a name, the reference of the baseline dimension at the first baseline index whose
  name matches; nothing when there is neither, or no baseline name matches.
\<close>

definition settingField ::
    "'d DimensionLib \<Rightarrow> 'd list \<Rightarrow> string list \<Rightarrow> ColumnSetting \<Rightarrow> FieldReference option" where
  "settingField D dims names s =
     (case fieldRef s of
        Some ref \<Rightarrow> Some ref
      | None \<Rightarrow>
          if setting_name s = [] then None
          else map_option (\<lambda>(n, d). mbql D d)
                 (List.find (\<lambda>(n, d). n = setting_name s) (zip names dims)))"

text \<open>The fields of the enabled settings, in the order of the settings.\<close>

definition settingFields ::
    "'d DimensionLib \<Rightarrow> 'd list \<Rightarrow> string list \<Rightarrow> ColumnSetting list \<Rightarrow> FieldReference list" where
  "settingFields D dims names settings =
     List.map_filter (settingField D dims names) (filter enabled settings)"

text \<open>The enabled settings that cannot be resolved, in the order of the settings.\<close>

definition unknownSettings ::
    "'d DimensionLib \<Rightarrow> 'd list \<Rightarrow> string list \<Rightarrow> ColumnSetting list \<Rightarrow> ColumnSetting list" where
  "unknownSettings D dims names settings =
     filter (\<lambda>s. enabled s \<and> settingField D dims names s = None) settings"

section \<open>Reading a serialization back\<close>

text \<open>
  The means to show that \<open>stringify\<close> loses nothing: the decimal digits and the number
  they denote, the characters that can follow a value inside an array, the inverse of the
  escaping of one character, and the elements of an array after the first.
\<close>

definition isDigit :: "char \<Rightarrow> bool" where
  "isDigit c \<longleftrightarrow> 48 \<le> (of_char c :: nat) \<and> (of_char c :: nat) < 58"

definition parseNat :: "string \<Rightarrow> nat" where
  "parseNat s = foldl (\<lambda>a c. 10 * a + (of_char c - 48)) 0 s"

definition delimited :: "string \<Rightarrow> bool" where
  "delimited r \<longleftrightarrow> (case r of [] \<Rightarrow> True | c # _ \<Rightarrow> c = CHR '','' \<or> c = CHR '']'')"

definition hexVal :: "char \<Rightarrow> nat" where
  "hexVal c = (if (of_char c :: nat) < 58 then of_char c - 48 else of_char c - 87)"

fun unescape :: "string \<Rightarrow> (char \<times> string) option" where
  "unescape [] = None"
| "unescape (c # cs) =
     (if c \<noteq> CHR 0x5C then Some (c, cs)
      else case cs of
        [] \<Rightarrow> None
      | e # rest \<Rightarrow>
          if e = CHR ''b'' then Some (CHR 0x08, rest)
          else if e = CHR ''t'' then Some (CHR 0x09, rest)
          else if e = CHR ''n'' then Some (CHR 0x0A, rest)
          else if e = CHR ''f'' then Some (CHR 0x0C, rest)
          else if e = CHR ''r'' then Some (CHR 0x0D, rest)
          else if e = CHR ''u'' then
            (case rest of
               _ # _ # h # l # rest' \<Rightarrow> Some (char_of (16 * hexVal h + hexVal l), rest')
             | _ \<Rightarrow> None)
          else Some (e, rest))"

definition elems :: "json list \<Rightarrow> string" where
  "elems xs = concat (map (\<lambda>x. CHR '','' # stringify x) xs)"

section \<open>Example data\<close>

text \<open>A column with no optional attribute, from which the examples below are built.\<close>

definition bareColumn :: Column where
  "bareColumn =
     \<lparr>oid = 0, id_field = None, fk_field_id = None, expression_name = None,
      source = None, name = ''count'', binning_info = None\<rparr>"

definition binnedColumn :: "real option \<Rightarrow> Column" where
  "binnedColumn w = bareColumn\<lparr>binning_info := Some \<lparr>bin_width = w\<rparr>\<rparr>"

text \<open>An aggregation column: no id, no expression name.\<close>

definition aggColumn :: Column where
  "aggColumn = bareColumn\<lparr>oid := 1, source := Some ''aggregation''\<rparr>"

text \<open>
  A small dimension library for the examples: a dimension is its canonical reference;
  parsing rewrites the legacy \<^verbatim>\<open>["fk->", 1, 2]\<close> into
  \<^verbatim>\<open>["fk->", ["field-id", 1], ["field-id", 2]]\<close>, keeps any other reference that is not
  empty, and fails on an absent or empty one.
\<close>

fun exampleParse :: "FieldReference option \<Rightarrow> FieldReference option" where
  "exampleParse None = None"
| "exampleParse (Some []) = None"
| "exampleParse (Some [JStr tag, JNum a, JNum b]) =
     (if tag = ''fk->''
      then Some [JStr tag, JArr [JStr ''field-id'', JNum a], JArr [JStr ''field-id'', JNum b]]
      else Some [JStr tag, JNum a, JNum b])"
| "exampleParse (Some r) = Some r"

definition exampleDimensions :: "FieldReference DimensionLib" where
  "exampleDimensions =
     \<lparr>parseMBQL = exampleParse, mbql = (\<lambda>d. d), isSameBaseDimension = (\<lambda>d e. d = e)\<rparr>"

text \<open>Two result columns: a plain field named \<open>a\<close> and a foreign-key field named \<open>b\<close>.\<close>

definition exampleColumns :: "Column list" where
  "exampleColumns =
     [bareColumn\<lparr>oid := 10, id_field := Some (FieldId 1), name := ''a''\<rparr>,
      bareColumn\<lparr>oid := 11, id_field := Some (FieldId 2), fk_field_id := Some 5, name := ''b''\<rparr>]"

text \<open>
  A small query library for the examples. A query is its explicit field list together with
  the settings of its question; a table with the two fields \<open>a\<close> and \<open>b\<close> stands behind
  it. Without explicit fields the columns are those of the table, else the explicit fields.
\<close>

record ExampleQuery =
  fieldList :: "FieldReference list"
  ownerSettings :: "ColumnSetting list option"

definition exampleTable :: "FieldReference list" where
  "exampleTable = [[JStr ''field-id'', JNum 1], [JStr ''field-id'', JNum 2]]"

definition exampleName :: "FieldReference \<Rightarrow> string" where
  "exampleName r =
     (if r = [JStr ''field-id'', JNum 1] then ''a''
      else if r = [JStr ''field-id'', JNum 2] then ''b'' else ''other'')"

definition exampleQueries ::
    "(ExampleQuery Query \<times> ColumnSetting list option, ExampleQuery, FieldReference) QueryLib" where
  "exampleQueries =
     \<lparr>query = fst,
      table_columns = snd,
      clearFields = (\<lambda>q. q\<lparr>fieldList := []\<rparr>),
      addField = (\<lambda>q r. q\<lparr>fieldList := fieldList q @ [r]\<rparr>),
      columnDimensions = (\<lambda>q. if fieldList q = [] then exampleTable else fieldList q),
      columnNames = (\<lambda>q. map exampleName (if fieldList q = [] then exampleTable else fieldList q)),
      question = (\<lambda>q. (StructuredQuery q, ownerSettings q))\<rparr>"

text \<open>A question on an example query whose explicit fields are \<open>fs\<close>.\<close>

definition exampleQuestion ::
    "FieldReference list \<Rightarrow> ColumnSetting list option
      \<Rightarrow> ExampleQuery Query \<times> ColumnSetting list option" where
  "exampleQuestion fs settings =
     (StructuredQuery \<lparr>fieldList = fs, ownerSettings = settings\<rparr>, settings)"

text \<open>
  Settings that select both fields of the table, the second one by reference, and settings
  that select the first field only.
\<close>

definition bothSettings :: "ColumnSetting list" where
  "bothSettings =
     [\<lparr>setting_name = ''a'', fieldRef = None, enabled = True\<rparr>,
      \<lparr>setting_name = ''b'', fieldRef = Some [JStr ''field-id'', JNum 2], enabled = True\<rparr>]"

definition firstOnlySettings :: "ColumnSetting list" where
  "firstOnlySettings =
     [\<lparr>setting_name = ''a'', fieldRef = None, enabled = True\<rparr>,
      \<lparr>setting_name = ''b'', fieldRef = Some [JStr ''field-id'', JNum 2], enabled = False\<rparr>]"

text \<open>A setting that names no column of the table, followed by one that names \<open>a\<close>.\<close>

definition unknownSetting :: ColumnSetting where
  "unknownSetting = \<lparr>setting_name = ''zz'', fieldRef = None, enabled = True\<rparr>"

definition mixedSettings :: "ColumnSetting list" where
  "mixedSettings = [unknownSetting, \<lparr>setting_name = ''a'', fieldRef = None, enabled = True\<rparr>]"

section \<open>Facts about the library functions\<close>

lemma isEqualValue_iff: "isEqualValue a b \<longleftrightarrow> a = b"
  by (cases a; cases b) simp_all

lemma isEqualRows_iff: "isEqualRows a b \<longleftrightarrow> a = b"
proof -
  have "list_all2 isEqualValue = (=)"
    by (intro ext) (simp add: list_all2_eq [symmetric] isEqualValue_iff [abs_def] fun_eq_iff
        list.rel_eq)
  then show ?thesis
    by (simp add: isEqualRows_def list.rel_eq)
qed

lemma isEqualJson_iff: "isEqualJson a b \<longleftrightarrow> a = b"
  and isEqual_iff: "isEqual xs ys \<longleftrightarrow> xs = ys"
  by (induction a b and xs ys rule: isEqualJson_isEqual.induct) simp_all

lemma findIndexFrom_none: "\<forall>x \<in> set xs. \<not> P x \<Longrightarrow> findIndexFrom P xs i = -1"
  by (induction xs arbitrary: i) simp_all

lemma findIndexFrom_first:
  "k < length xs \<Longrightarrow> P (xs ! k) \<Longrightarrow> \<forall>j < k. \<not> P (xs ! j)
     \<Longrightarrow> findIndexFrom P xs i = i + int k"
proof (induction xs arbitrary: i k)
  case Nil
  then show ?case by simp
next
  case (Cons x xs)
  show ?case
  proof (cases k)
    case 0
    with Cons.prems show ?thesis by simp
  next
    case (Suc k')
    with Cons.prems have "\<not> P x" by auto
    moreover have "findIndexFrom P xs (i + 1) = (i + 1) + int k'"
      using Cons.prems Suc by (intro Cons.IH) auto
    ultimately show ?thesis using Suc by simp
  qed
qed

lemma findIndexFrom_range:
  "0 \<le> i \<Longrightarrow> findIndexFrom P xs i = -1
     \<or> (i \<le> findIndexFrom P xs i \<and> findIndexFrom P xs i < i + int (length xs))"
proof (induction xs arbitrary: i)
  case Nil
  then show ?case by simp
next
  case (Cons x xs)
  from Cons.IH [of "i + 1"] Cons.prems show ?case by auto
qed

lemma findIndexFrom_found:
  "0 \<le> i \<Longrightarrow> 0 \<le> findIndexFrom P xs i \<longleftrightarrow> (\<exists>x \<in> set xs. P x)"
  by (induction xs arbitrary: i) auto

section \<open>Small predicates\<close>

text \<open>
  C7. \<^verbatim>\<open>datasetContainsNoResults(data)\<close> is true exactly when \<^verbatim>\<open>data.rows\<close> is empty or
  is structurally equal to \<^verbatim>\<open>[[null]]\<close>; it is false for \<^verbatim>\<open>{rows: [[1]]}\<close> and for
  \<^verbatim>\<open>{rows: [[null],[null]]}\<close>.
\<close>

theorem datasetContainsNoResults_iff:
  "(datasetContainsNoResults data \<longleftrightarrow> rows data = [] \<or> rows data = [[VNull]])
   \<and> \<not> datasetContainsNoResults \<lparr>rows = [[VNum 1]]\<rparr>
   \<and> \<not> datasetContainsNoResults \<lparr>rows = [[VNull], [VNull]]\<rparr>"
  by (simp add: datasetContainsNoResults_def isEqualRows_iff)

text \<open>
  C8, as the code has it. \<^verbatim>\<open>rangeForValue(value, column)\<close> returns
  \<^verbatim>\<open>[value, value + bin_width]\<close> exactly when the value is a number, the column and its
  \<^verbatim>\<open>binning_info\<close> are present and \<^verbatim>\<open>bin_width\<close> is set and is not zero; in every
  other case it returns \<^verbatim>\<open>undefined\<close>.
\<close>

theorem rangeForValue_cases:
  "(rangeForValue v column = Some r \<longleftrightarrow>
      (\<exists>n c b w. v = VNum n \<and> column = Some c \<and> binning_info c = Some b
         \<and> bin_width b = Some w \<and> w \<noteq> 0 \<and> r = (n, n + w)))
   \<and> (rangeForValue v column = None \<longleftrightarrow>
      \<not> (\<exists>n c b w. v = VNum n \<and> column = Some c \<and> binning_info c = Some b
         \<and> bin_width b = Some w \<and> w \<noteq> 0))"
  by (auto simp: rangeForValue_def split: Value.splits option.splits)

text \<open>
  The examples of the specification: \<^verbatim>\<open>rangeForValue(5, {binning_info:{bin_width:10}})\<close>
  is \<^verbatim>\<open>[5, 15]\<close>, and the result is \<^verbatim>\<open>undefined\<close> without a column or for the string
  \<^verbatim>\<open>"x"\<close>.
\<close>

lemma rangeForValue_examples:
  "rangeForValue (VNum 5) (Some (binnedColumn (Some 10))) = Some (5, 15)
   \<and> rangeForValue (VNum 5) None = None
   \<and> rangeForValue (VStr ''x'') (Some (binnedColumn (Some 10))) = None"
  by (simp add: rangeForValue_def binnedColumn_def)

text \<open>
  C8 as it is stated fails: with a numeric value and \<^verbatim>\<open>bin_width\<close> set to \<open>0\<close> the
  result is \<^verbatim>\<open>undefined\<close>, not \<^verbatim>\<open>[5, 5]\<close>.
\<close>

theorem rangeForValue_zero_width_counterexample:
  "bin_width \<lparr>bin_width = Some 0\<rparr> = Some 0
   \<and> binning_info (binnedColumn (Some 0)) = Some \<lparr>bin_width = Some 0\<rparr>
   \<and> rangeForValue (VNum 5) (Some (binnedColumn (Some 0))) \<noteq> Some (5, 5 + 0)
   \<and> rangeForValue (VNum 5) (Some (binnedColumn (Some 0))) = None"
  by (simp add: rangeForValue_def binnedColumn_def)

text \<open>
  C10. For a numeric value and a column whose \<^verbatim>\<open>bin_width\<close> is present but \<open>0\<close>,
  \<^verbatim>\<open>rangeForValue\<close> returns \<^verbatim>\<open>undefined\<close>, as it does when \<^verbatim>\<open>bin_width\<close> is absent.
\<close>

theorem rangeForValue_zero_width:
  assumes "binning_info c = Some b" and "bin_width b = Some 0"
  shows "rangeForValue (VNum n) (Some c) = None
         \<and> rangeForValue (VNum n) (Some c)
             = rangeForValue (VNum n) (Some (c\<lparr>binning_info := Some (b\<lparr>bin_width := None\<rparr>)\<rparr>))"
  using assms by (simp add: rangeForValue_def)

theorem rangeForValue_zero_width_witness:
  "binning_info (binnedColumn (Some 0)) = Some \<lparr>bin_width = Some 0\<rparr>
   \<and> rangeForValue (VNum 7) (Some (binnedColumn (Some 0))) = None"
  using rangeForValue_zero_width [of "binnedColumn (Some 0)" "\<lparr>bin_width = Some 0\<rparr>" 7]
  by (simp add: binnedColumn_def)

section \<open>Field references of columns\<close>

text \<open>
  C4. \<^verbatim>\<open>fieldRefForColumn\<close> resolves in order, whatever the \<^verbatim>\<open>columns\<close> argument and
  the other attributes are: a \<^verbatim>\<open>column.id\<close> that is an array is returned unchanged
  (whatever \<^verbatim>\<open>fk_field_id\<close> is); otherwise, with \<^verbatim>\<open>id\<close> and \<^verbatim>\<open>fk_field_id\<close> set the
  result is \<^verbatim>\<open>["fk->", fk_field_id, id]\<close>; otherwise, with \<^verbatim>\<open>id\<close> set it is
  \<^verbatim>\<open>["field-id", id]\<close>.
\<close>

theorem fieldRefForColumn_id_order:
  "(id_field column = Some (FieldRefId r) \<longrightarrow> fieldRefForColumn column columns = Some r)
   \<and> (id_field column = Some (FieldId i) \<and> fk_field_id column = Some fk
        \<longrightarrow> fieldRefForColumn column columns = Some [JStr ''fk->'', JNum fk, JNum i])
   \<and> (id_field column = Some (FieldId i) \<and> fk_field_id column = None
        \<longrightarrow> fieldRefForColumn column columns = Some [JStr ''field-id'', JNum i])"
  by (simp add: fieldRefForColumn_def)

theorem fieldRefForColumn_id_order_witness:
  "fieldRefForColumn
      (bareColumn\<lparr>id_field := Some (FieldRefId [JStr ''field-literal'', JStr ''total'']),
                   fk_field_id := Some 4, expression_name := Some ''e''\<rparr>) None
     = Some [JStr ''field-literal'', JStr ''total'']
   \<and> fieldRefForColumn
      (bareColumn\<lparr>id_field := Some (FieldId 7), fk_field_id := Some 4,
                   expression_name := Some ''e''\<rparr>) (Some [])
     = Some [JStr ''fk->'', JNum 4, JNum 7]
   \<and> fieldRefForColumn (bareColumn\<lparr>id_field := Some (FieldId 7)\<rparr>) None
     = Some [JStr ''field-id'', JNum 7]"
proof -
  let ?a = "bareColumn\<lparr>id_field := Some (FieldRefId [JStr ''field-literal'', JStr ''total'']),
                        fk_field_id := Some 4, expression_name := Some ''e''\<rparr>"
  let ?b = "bareColumn\<lparr>id_field := Some (FieldId 7), fk_field_id := Some 4,
                        expression_name := Some ''e''\<rparr>"
  let ?c = "bareColumn\<lparr>id_field := Some (FieldId 7)\<rparr>"
  have "fieldRefForColumn ?a None = Some [JStr ''field-literal'', JStr ''total'']"
    using fieldRefForColumn_id_order [of ?a "[JStr ''field-literal'', JStr ''total'']" None]
    by simp
  moreover have "fieldRefForColumn ?b (Some []) = Some [JStr ''fk->'', JNum 4, JNum 7]"
    using fieldRefForColumn_id_order [of ?b _ "Some []" 7 4] by simp
  moreover have "fieldRefForColumn ?c None = Some [JStr ''field-id'', JNum 7]"
    using fieldRefForColumn_id_order [of ?c _ None 7] by (simp add: bareColumn_def)
  ultimately show ?thesis by simp
qed

text \<open>
  C2, as the code has it. Let the column have no \<^verbatim>\<open>id\<close> and no \<^verbatim>\<open>expression_name\<close>
  and the source \<^verbatim>\<open>"aggregation"\<close>. If \<open>k\<close> is the first position at which it stands
  among the aggregation columns of \<^verbatim>\<open>columns\<close> (its only position when no object is listed
  twice), \<^verbatim>\<open>fieldRefForColumn(column, columns)\<close> is \<^verbatim>\<open>["aggregation", k]\<close>. Without the
  \<^verbatim>\<open>columns\<close> argument the result is \<^verbatim>\<open>null\<close>, and so it is when the column is not in
  \<^verbatim>\<open>columns\<close>.
\<close>

theorem fieldRefForColumn_aggregation:
  assumes "id_field column = None" and "expression_name column = None"
    and "source column = Some ''aggregation''"
  defines "aggs \<equiv> \<lambda>columns. filter (\<lambda>c. source c = Some ''aggregation'') columns"
  shows "(k < length (aggs columns) \<and> aggs columns ! k = column
            \<and> (\<forall>j < k. aggs columns ! j \<noteq> column)
          \<longrightarrow> fieldRefForColumn column (Some columns) = Some [JStr ''aggregation'', JNum (int k)])
       \<and> (distinct columns \<and> k < length (aggs columns) \<and> aggs columns ! k = column
          \<longrightarrow> fieldRefForColumn column (Some columns) = Some [JStr ''aggregation'', JNum (int k)])
       \<and> fieldRefForColumn column None = None
       \<and> (column \<notin> set columns \<longrightarrow> fieldRefForColumn column (Some columns) = None)"
proof -
  have first: "fieldRefForColumn column (Some columns) = Some [JStr ''aggregation'', JNum (int k)]"
    if "k < length (aggs columns)" "aggs columns ! k = column"
      "\<forall>j < k. aggs columns ! j \<noteq> column"
  proof -
    have "indexOf (aggs columns) column = int k"
      unfolding indexOf_def using findIndexFrom_first [of k "aggs columns" "\<lambda>y. y = column" 0] that
      by simp
    then show ?thesis
      using assms(1-3) by (simp add: fieldRefForColumn_def aggs_def)
  qed
  have dist: "\<forall>j < k. aggs columns ! j \<noteq> column"
    if "distinct columns" "k < length (aggs columns)" "aggs columns ! k = column"
  proof -
    have "distinct (aggs columns)"
      using that(1) by (simp add: aggs_def)
    then show ?thesis
      using that(2,3) by (auto simp: nth_eq_iff_index_eq)
  qed
  have absent: "fieldRefForColumn column (Some columns) = None" if "column \<notin> set columns"
  proof -
    have "indexOf (aggs columns) column = -1"
      unfolding indexOf_def using that by (intro findIndexFrom_none) (auto simp: aggs_def)
    then show ?thesis
      using assms(1-3) by (simp add: fieldRefForColumn_def aggs_def)
  qed
  have none: "fieldRefForColumn column None = None"
    using assms(1-3) by (simp add: fieldRefForColumn_def)
  from first dist absent none show ?thesis by blast
qed

text \<open>
  Three columns, two of them aggregations that differ in nothing but their identity: the
  second one is \<^verbatim>\<open>["aggregation", 1]\<close>.
\<close>

theorem fieldRefForColumn_aggregation_witness:
  "fieldRefForColumn (bareColumn\<lparr>oid := 2, source := Some ''aggregation''\<rparr>)
      (Some [bareColumn\<lparr>id_field := Some (FieldId 1), source := Some ''breakout''\<rparr>,
             bareColumn\<lparr>oid := 1, source := Some ''aggregation''\<rparr>,
             bareColumn\<lparr>oid := 2, source := Some ''aggregation''\<rparr>])
     = Some [JStr ''aggregation'', JNum 1]
   \<and> fieldRefForColumn (bareColumn\<lparr>oid := 2, source := Some ''aggregation''\<rparr>) None = None
   \<and> fieldRefForColumn (bareColumn\<lparr>oid := 2, source := Some ''aggregation''\<rparr>)
      (Some [bareColumn\<lparr>oid := 1, source := Some ''aggregation''\<rparr>]) = None"
proof -
  let ?c = "bareColumn\<lparr>oid := 2, source := Some ''aggregation''\<rparr>"
  let ?cs = "[bareColumn\<lparr>id_field := Some (FieldId 1), source := Some ''breakout''\<rparr>,
              bareColumn\<lparr>oid := 1, source := Some ''aggregation''\<rparr>, ?c]"
  have "fieldRefForColumn ?c (Some ?cs) = Some [JStr ''aggregation'', JNum 1]"
    using fieldRefForColumn_aggregation [of ?c 1 ?cs] by (simp add: bareColumn_def)
  moreover have "fieldRefForColumn ?c None = None"
    using fieldRefForColumn_aggregation [of ?c] by (simp add: bareColumn_def)
  moreover have "fieldRefForColumn ?c (Some [bareColumn\<lparr>oid := 1, source := Some ''aggregation''\<rparr>])
      = None"
    using fieldRefForColumn_aggregation [of ?c _ "[bareColumn\<lparr>oid := 1, source := Some ''aggregation''\<rparr>]"]
    by (simp add: bareColumn_def)
  ultimately show ?thesis by simp
qed

text \<open>
  C2 as it is stated fails when the array lists the same column object twice: the column
  stands at position 1 among the aggregation columns, and \<^verbatim>\<open>indexOf\<close> finds it at
  position 0.
\<close>

theorem fieldRefForColumn_aggregation_counterexample:
  "id_field aggColumn = None \<and> expression_name aggColumn = None
   \<and> source aggColumn = Some ''aggregation''
   \<and> filter (\<lambda>c. source c = Some ''aggregation'') [aggColumn, aggColumn] ! 1 = aggColumn
   \<and> fieldRefForColumn aggColumn (Some [aggColumn, aggColumn]) = Some [JStr ''aggregation'', JNum 0]
   \<and> fieldRefForColumn aggColumn (Some [aggColumn, aggColumn]) \<noteq> Some [JStr ''aggregation'', JNum 1]"
  by (simp add: fieldRefForColumn_def indexOf_def aggColumn_def bareColumn_def)

section \<open>Finding the column of a column setting\<close>

text \<open>
  C3. \<^verbatim>\<open>findColumnIndexForColumnSetting\<close> first matches by normalized reference: when the
  setting's \<^verbatim>\<open>fieldRef\<close> normalizes to a reference and a column's own normalized
  reference (from \<^verbatim>\<open>fieldRefForColumn\<close> without the columns array) is equal to it, the
  index of the first such column is returned, whatever the names are. When that finds
  nothing, the index of the first column whose name is the setting's name is returned, and
  \<open>-1\<close> when there is none.
\<close>

theorem findColumnIndexForColumnSetting_order:
  fixes D :: "'d DimensionLib"
  defines "colRef \<equiv> \<lambda>col. normalizeFieldRef D (fieldRefForColumn col None)"
  shows "(normalizeFieldRef D (fieldRef columnSetting) = Some r \<and> i < length columns
            \<and> colRef (columns ! i) = Some r \<and> (\<forall>j < i. colRef (columns ! j) \<noteq> Some r)
          \<longrightarrow> findColumnIndexForColumnSetting D columns columnSetting = int i)
       \<and> ((normalizeFieldRef D (fieldRef columnSetting) = None
              \<or> (\<forall>col \<in> set columns. colRef col \<noteq> normalizeFieldRef D (fieldRef columnSetting)))
            \<and> i < length columns \<and> name (columns ! i) = setting_name columnSetting
            \<and> (\<forall>j < i. name (columns ! j) \<noteq> setting_name columnSetting)
          \<longrightarrow> findColumnIndexForColumnSetting D columns columnSetting = int i)
       \<and> ((normalizeFieldRef D (fieldRef columnSetting) = None
              \<or> (\<forall>col \<in> set columns. colRef col \<noteq> normalizeFieldRef D (fieldRef columnSetting)))
            \<and> (\<forall>col \<in> set columns. name col \<noteq> setting_name columnSetting)
          \<longrightarrow> findColumnIndexForColumnSetting D columns columnSetting = -1)"
proof -
  let ?byName = "findIndex columns (\<lambda>col. name col = setting_name columnSetting)"
  let ?match = "\<lambda>ref col. case colRef col of Some r \<Rightarrow> isEqual ref r | None \<Rightarrow> False"
  have match: "?match ref col \<longleftrightarrow> colRef col = Some ref" for ref col
    by (simp add: isEqual_iff split: option.splits) auto
  have byRef: "findColumnIndexForColumnSetting D columns columnSetting = int i"
    if "normalizeFieldRef D (fieldRef columnSetting) = Some r" "i < length columns"
      "colRef (columns ! i) = Some r" "\<forall>j < i. colRef (columns ! j) \<noteq> Some r"
  proof -
    have "?match r (columns ! i)" and "\<forall>j < i. \<not> ?match r (columns ! j)"
      using that(3,4) by (auto simp: isEqual_iff split: option.splits)
    then have "findIndexFrom (?match r) columns 0 = 0 + int i"
      using that(2) by (intro findIndexFrom_first)
    then have "findIndex columns (?match r) = int i"
      by (simp add: findIndex_def)
    then show ?thesis
      using that(1) by (simp add: findColumnIndexForColumnSetting_def colRef_def)
  qed
  have fallback: "findColumnIndexForColumnSetting D columns columnSetting = ?byName"
    if "normalizeFieldRef D (fieldRef columnSetting) = None
        \<or> (\<forall>col \<in> set columns. colRef col \<noteq> normalizeFieldRef D (fieldRef columnSetting))"
  proof (cases "normalizeFieldRef D (fieldRef columnSetting)")
    case None
    then show ?thesis by (simp add: findColumnIndexForColumnSetting_def)
  next
    case (Some r)
    with that have "\<forall>col \<in> set columns. \<not> ?match r col"
      by (simp add: match)
    then have "findIndex columns (?match r) = -1"
      unfolding findIndex_def by (rule findIndexFrom_none)
    with Some show ?thesis
      by (simp add: findColumnIndexForColumnSetting_def colRef_def)
  qed
  have name_first: "?byName = int i"
    if "i < length columns" "name (columns ! i) = setting_name columnSetting"
      "\<forall>j < i. name (columns ! j) \<noteq> setting_name columnSetting"
    unfolding findIndex_def
    using findIndexFrom_first [of i columns "\<lambda>col. name col = setting_name columnSetting" 0] that
    by simp
  have name_none: "?byName = -1"
    if "\<forall>col \<in> set columns. name col \<noteq> setting_name columnSetting"
    unfolding findIndex_def using that by (intro findIndexFrom_none) simp
  from byRef fallback name_first name_none show ?thesis by metis
qed

text \<open>
  A setting named \<open>a\<close> (the first column) whose legacy reference \<^verbatim>\<open>["fk->", 5, 2]\<close> is
  that of the second column resolves to index 1; a setting with a name only resolves by
  name; a setting that matches nothing gives \<open>-1\<close>.
\<close>

theorem findColumnIndexForColumnSetting_order_witness:
  "findColumnIndexForColumnSetting exampleDimensions exampleColumns
      \<lparr>setting_name = ''a'', fieldRef = Some [JStr ''fk->'', JNum 5, JNum 2], enabled = True\<rparr> = 1
   \<and> findColumnIndexForColumnSetting exampleDimensions exampleColumns
      \<lparr>setting_name = ''b'', fieldRef = None, enabled = True\<rparr> = 1
   \<and> findColumnIndexForColumnSetting exampleDimensions exampleColumns
      \<lparr>setting_name = ''c'', fieldRef = Some [JStr ''field-id'', JNum 99], enabled = True\<rparr> = -1"
proof -
  let ?s1 = "\<lparr>setting_name = ''a'', fieldRef = Some [JStr ''fk->'', JNum 5, JNum 2], enabled = True\<rparr>"
  let ?s2 = "\<lparr>setting_name = ''b'', fieldRef = None, enabled = True\<rparr>"
  let ?s3 = "\<lparr>setting_name = ''c'', fieldRef = Some [JStr ''field-id'', JNum 99], enabled = True\<rparr>"
  have "findColumnIndexForColumnSetting exampleDimensions exampleColumns ?s1 = 1"
    using findColumnIndexForColumnSetting_order
      [of exampleDimensions ?s1
        "[JStr ''fk->'', JArr [JStr ''field-id'', JNum 5], JArr [JStr ''field-id'', JNum 2]]"
        1 exampleColumns]
    by (simp add: exampleColumns_def exampleDimensions_def normalizeFieldRef_def
        fieldRefForColumn_def bareColumn_def)
  moreover have "findColumnIndexForColumnSetting exampleDimensions exampleColumns ?s2 = 1"
    using findColumnIndexForColumnSetting_order [of exampleDimensions ?s2 _ 1 exampleColumns]
    by (simp add: exampleColumns_def exampleDimensions_def normalizeFieldRef_def
        fieldRefForColumn_def bareColumn_def)
  moreover have "findColumnIndexForColumnSetting exampleDimensions exampleColumns ?s3 = -1"
    using findColumnIndexForColumnSetting_order [of exampleDimensions ?s3 _ _ exampleColumns]
    by (simp add: exampleColumns_def exampleDimensions_def normalizeFieldRef_def
        fieldRefForColumn_def bareColumn_def)
  ultimately show ?thesis by simp
qed

section \<open>Reconciling the field list with the column settings\<close>

lemma findIndexFrom_find_zip:
  "length names \<le> length dims \<Longrightarrow>
     (findIndexFrom P names i = -1 \<and> List.find (\<lambda>(n, d). P n) (zip names dims) = None)
     \<or> (\<exists>k < length names. findIndexFrom P names i = i + int k
           \<and> List.find (\<lambda>(n, d). P n) (zip names dims) = Some (names ! k, dims ! k))"
proof (induction names arbitrary: dims i)
  case Nil
  then show ?case by simp
next
  case (Cons n ns)
  then obtain d ds where dims: "dims = d # ds" and le: "length ns \<le> length ds"
    by (cases dims) auto
  show ?case
  proof (cases "P n")
    case True
    then show ?thesis using dims by auto
  next
    case False
    from Cons.IH [OF le, of "i + 1"] show ?thesis
    proof (elim disjE conjE exE)
      assume "findIndexFrom P ns (i + 1) = -1"
        and "List.find (\<lambda>(n, d). P n) (zip ns ds) = None"
      with False dims show ?thesis by simp
    next
      fix k
      assume "k < length ns" and "findIndexFrom P ns (i + 1) = i + 1 + int k"
        and "List.find (\<lambda>(n, d). P n) (zip ns ds) = Some (ns ! k, ds ! k)"
      with False dims have "Suc k < length (n # ns)
          \<and> findIndexFrom P (n # ns) i = i + int (Suc k)
          \<and> List.find (\<lambda>(n, d). P n) (zip (n # ns) dims) = Some ((n # ns) ! Suc k, dims ! Suc k)"
        by simp
      then show ?thesis by blast
    qed
  qed
qed

text \<open>
  What the loop does with one enabled setting that has a name and no \<^verbatim>\<open>fieldRef\<close>, when
  every baseline name has its dimension.
\<close>

lemma settingField_by_name:
  assumes "length names \<le> length dims" and "fieldRef s = None" and "setting_name s \<noteq> []"
  defines "index \<equiv> findIndex names (\<lambda>name. name = setting_name s)"
  shows "(index \<ge> 0 \<and> nat index < length dims
            \<and> settingField D dims names s = Some (mbql D (dims ! nat index)))
         \<or> (\<not> index \<ge> 0 \<and> settingField D dims names s = None)"
  using findIndexFrom_find_zip [OF assms(1), of "\<lambda>name. name = setting_name s" 0] assms(1-3)
  by (auto simp: index_def findIndex_def settingField_def)

lemma syncTableColumnsToQuery_loop_eq:
  assumes "length names \<le> length dims"
  shows "syncTableColumnsToQuery_loop D Q dims names settings q warned =
           Inr (foldl (addField Q) q (settingFields D dims names settings),
                warned @ unknownSettings D dims names settings)"
proof (induction settings arbitrary: q warned)
  case Nil
  show ?case by (simp add: settingFields_def unknownSettings_def List.map_filter_simps)
next
  case (Cons s rest)
  show ?case
  proof (cases "enabled s")
    case False
    then show ?thesis
      by (simp add: Cons.IH settingFields_def unknownSettings_def)
  next
    case True
    note on = this
    show ?thesis
    proof (cases "fieldRef s")
      case (Some ref)
      then have "settingField D dims names s = Some ref"
        by (simp add: settingField_def)
      with on Some show ?thesis
        by (simp add: Cons.IH settingFields_def unknownSettings_def List.map_filter_simps)
    next
      case None
      show ?thesis
      proof (cases "setting_name s = []")
        case True
        then have "settingField D dims names s = None"
          using None by (simp add: settingField_def)
        with on None True show ?thesis
          by (simp add: Cons.IH settingFields_def unknownSettings_def List.map_filter_simps)
      next
        case False
        from settingField_by_name [OF assms None False, of D] on None False show ?thesis
          by (auto simp: Cons.IH settingFields_def unknownSettings_def List.map_filter_simps
              Let_def)
      qed
    qed
  qed
qed

lemma list_all_upt_iff: "list_all P [0..<n] \<longleftrightarrow> (\<forall>i < n. P i)"
  by (auto simp: list_all_iff)

text \<open>
  C6. When the question's query is not a structured query, or there is no
  \<^verbatim>\<open>table.columns\<close> setting, \<^verbatim>\<open>syncTableColumnsToQuery\<close> returns the question it was given
  (and writes nothing to the console).
\<close>

theorem syncTableColumnsToQuery_unchanged:
  "query Q qn = OtherQuery \<or> table_columns Q qn = None
     \<Longrightarrow> syncTableColumnsToQuery D Q qn = Inr (qn, [])"
  by (auto simp: syncTableColumnsToQuery_def split: option.splits Query.splits)

theorem syncTableColumnsToQuery_unchanged_witness:
  "syncTableColumnsToQuery exampleDimensions exampleQueries
      (OtherQuery, Some [\<lparr>setting_name = ''a'', fieldRef = None, enabled = True\<rparr>])
     = Inr ((OtherQuery, Some [\<lparr>setting_name = ''a'', fieldRef = None, enabled = True\<rparr>]), [])
   \<and> syncTableColumnsToQuery exampleDimensions exampleQueries
      (exampleQuestion [[JStr ''field-id'', JNum 2]] None)
     = Inr (exampleQuestion [[JStr ''field-id'', JNum 2]] None, [])"
proof -
  have "syncTableColumnsToQuery exampleDimensions exampleQueries
      (OtherQuery, Some [\<lparr>setting_name = ''a'', fieldRef = None, enabled = True\<rparr>])
     = Inr ((OtherQuery, Some [\<lparr>setting_name = ''a'', fieldRef = None, enabled = True\<rparr>]), [])"
    using syncTableColumnsToQuery_unchanged
      [of exampleQueries "(OtherQuery, Some [\<lparr>setting_name = ''a'', fieldRef = None, enabled = True\<rparr>])"
        exampleDimensions]
    by (simp add: exampleQueries_def)
  moreover have "syncTableColumnsToQuery exampleDimensions exampleQueries
      (exampleQuestion [[JStr ''field-id'', JNum 2]] None)
     = Inr (exampleQuestion [[JStr ''field-id'', JNum 2]] None, [])"
    using syncTableColumnsToQuery_unchanged
      [of exampleQueries "exampleQuestion [[JStr ''field-id'', JNum 2]] None" exampleDimensions]
    by (simp add: exampleQueries_def exampleQuestion_def)
  ultimately show ?thesis by simp
qed

text \<open>
  C1. Let the question have a structured query and a \<^verbatim>\<open>table.columns\<close> setting (and let
  every baseline name have its dimension). Clear the field list and add the fields of the
  enabled settings. If the recomputed column dimensions are as many as the baseline
  dimensions and the dimensions at each position are the same base dimension, the result is
  the question of the query with its field list cleared again; otherwise it is the question
  of the query with the built field list.
\<close>

theorem syncTableColumnsToQuery_collapse:
  fixes D :: "'d DimensionLib" and Q :: "('qn, 'q, 'd) QueryLib"
  assumes "table_columns Q qn = Some columnSettings" and "query Q qn = StructuredQuery q"
    and "length (columnNames Q (clearFields Q q)) \<le> length (columnDimensions Q (clearFields Q q))"
  defines "dims \<equiv> columnDimensions Q (clearFields Q q)"
  defines "q1 \<equiv> foldl (addField Q) (clearFields Q q)
                   (settingFields D dims (columnNames Q (clearFields Q q)) columnSettings)"
  defines "newDims \<equiv> columnDimensions Q q1"
  shows "(length dims = length newDims
            \<and> (\<forall>i < length dims. isSameBaseDimension D (dims ! i) (newDims ! i))
          \<longrightarrow> (\<exists>warned. syncTableColumnsToQuery D Q qn = Inr (question Q (clearFields Q q1), warned)))
       \<and> (\<not> (length dims = length newDims
               \<and> (\<forall>i < length dims. isSameBaseDimension D (dims ! i) (newDims ! i)))
          \<longrightarrow> (\<exists>warned. syncTableColumnsToQuery D Q qn = Inr (question Q q1, warned)))"
proof -
  have loop: "syncTableColumnsToQuery_loop D Q dims (columnNames Q (clearFields Q q)) columnSettings
                (clearFields Q q) []
              = Inr (q1, unknownSettings D dims (columnNames Q (clearFields Q q)) columnSettings)"
    using assms(3) by (simp add: syncTableColumnsToQuery_loop_eq dims_def q1_def)
  show ?thesis
    using assms(1,2) loop
    by (auto simp: syncTableColumnsToQuery_def list_all_upt_iff Let_def
        dims_def [symmetric] newDims_def [symmetric])
qed

text \<open>
  On the example table: settings that select both fields build the list of both and end with
  no explicit field list; settings that select the first field only keep their list.
\<close>

lemma example_settingFields:
  "settingFields exampleDimensions exampleTable (map exampleName exampleTable) bothSettings
     = exampleTable"
  "settingFields exampleDimensions exampleTable (map exampleName exampleTable) firstOnlySettings
     = [[JStr ''field-id'', JNum 1]]"
  by (simp_all add: settingFields_def settingField_def List.map_filter_simps bothSettings_def
      firstOnlySettings_def exampleTable_def exampleName_def exampleDimensions_def)

theorem syncTableColumnsToQuery_collapse_witness:
  "(\<exists>warned. syncTableColumnsToQuery exampleDimensions exampleQueries
        (exampleQuestion [[JStr ''field-id'', JNum 2]] (Some bothSettings))
      = Inr (exampleQuestion [] (Some bothSettings), warned))
   \<and> (\<exists>warned. syncTableColumnsToQuery exampleDimensions exampleQueries
        (exampleQuestion [[JStr ''field-id'', JNum 2]] (Some firstOnlySettings))
      = Inr (exampleQuestion [[JStr ''field-id'', JNum 1]] (Some firstOnlySettings), warned))"
proof -
  let ?q = "\<lparr>fieldList = [[JStr ''field-id'', JNum 2]], ownerSettings = Some bothSettings\<rparr>"
  let ?q' = "\<lparr>fieldList = [[JStr ''field-id'', JNum 2]], ownerSettings = Some firstOnlySettings\<rparr>"
  have "\<exists>warned. syncTableColumnsToQuery exampleDimensions exampleQueries
        (exampleQuestion [[JStr ''field-id'', JNum 2]] (Some bothSettings))
      = Inr (exampleQuestion [] (Some bothSettings), warned)"
    using syncTableColumnsToQuery_collapse
      [of exampleQueries "exampleQuestion [[JStr ''field-id'', JNum 2]] (Some bothSettings)"
        bothSettings ?q exampleDimensions]
    by (simp add: exampleQueries_def exampleQuestion_def example_settingFields)
      (simp add: exampleTable_def exampleDimensions_def)
  moreover have "\<exists>warned. syncTableColumnsToQuery exampleDimensions exampleQueries
        (exampleQuestion [[JStr ''field-id'', JNum 2]] (Some firstOnlySettings))
      = Inr (exampleQuestion [[JStr ''field-id'', JNum 1]] (Some firstOnlySettings), warned)"
    using syncTableColumnsToQuery_collapse
      [of exampleQueries "exampleQuestion [[JStr ''field-id'', JNum 2]] (Some firstOnlySettings)"
        firstOnlySettings ?q' exampleDimensions]
    by (simp add: exampleQueries_def exampleQuestion_def example_settingFields)
      (simp add: exampleTable_def exampleDimensions_def)
  ultimately show ?thesis by simp
qed

section \<open>Sentinel results instead of exceptions\<close>

lemma findIndex_range:
  "findIndex xs P = -1 \<or> (0 \<le> findIndex xs P \<and> findIndex xs P < int (length xs))"
  using findIndexFrom_range [of 0 P xs] by (simp add: findIndex_def)

lemma findIndex_minus1_iff: "findIndex xs P = -1 \<longleftrightarrow> (\<forall>x \<in> set xs. \<not> P x)"
  using findIndexFrom_found [of 0 P xs] findIndexFrom_none [of xs P 0]
  by (auto simp: findIndex_def)

lemma findColumnIndexForColumnSetting_range:
  "findColumnIndexForColumnSetting D cols s = -1
   \<or> (0 \<le> findColumnIndexForColumnSetting D cols s
       \<and> findColumnIndexForColumnSetting D cols s < int (length cols))"
proof -
  let ?byName = "findIndex cols (\<lambda>col. name col = setting_name s)"
  show ?thesis
  proof (cases "normalizeFieldRef D (fieldRef s)")
    case None
    then show ?thesis
      using findIndex_range [of cols "\<lambda>col. name col = setting_name s"]
      by (simp add: findColumnIndexForColumnSetting_def)
  next
    case (Some ref)
    let ?byRef = "findIndex cols
        (\<lambda>col. case normalizeFieldRef D (fieldRefForColumn col None) of
                 Some r \<Rightarrow> isEqual ref r | None \<Rightarrow> False)"
    have "findColumnIndexForColumnSetting D cols s = (if ?byRef \<ge> 0 then ?byRef else ?byName)"
      using Some by (simp add: findColumnIndexForColumnSetting_def)
    moreover have "?byRef = -1 \<or> (0 \<le> ?byRef \<and> ?byRef < int (length cols))"
      by (rule findIndex_range)
    moreover have "?byName = -1 \<or> (0 \<le> ?byName \<and> ?byName < int (length cols))"
      by (rule findIndex_range)
    ultimately show ?thesis by auto
  qed
qed

lemma settingField_None_iff:
  assumes "length names \<le> length dims"
  shows "settingField D dims names s = None
         \<longleftrightarrow> fieldRef s = None \<and> (setting_name s = [] \<or> setting_name s \<notin> set names)"
proof (cases "fieldRef s")
  case (Some ref)
  then show ?thesis by (simp add: settingField_def)
next
  case None
  show ?thesis
  proof (cases "setting_name s = []")
    case True
    with None show ?thesis by (simp add: settingField_def)
  next
    case False
    have "findIndex names (\<lambda>name. name = setting_name s) \<ge> 0 \<longleftrightarrow> setting_name s \<in> set names"
      using findIndexFrom_found [of 0 "\<lambda>name. name = setting_name s" names]
      by (auto simp: findIndex_def)
    with settingField_by_name [OF assms None False, of D] None False show ?thesis
      by auto
  qed
qed

lemma settingFields_skip:
  "settingField D dims names s = None
     \<Longrightarrow> settingFields D dims names (pre @ s # post) = settingFields D dims names (pre @ post)"
  by (simp add: settingFields_def List.map_filter_def)

lemma syncTableColumnsToQuery_loop_untyped_objects:
  "syncTableColumnsToQuery_loop_untyped D Q dims names (map Some settings) q warned
     = syncTableColumnsToQuery_loop D Q dims names settings q warned"
  by (induction settings arbitrary: q warned) (simp_all add: Let_def split: option.splits)

lemma syncTableColumnsToQuery_untyped_objects:
  "syncTableColumnsToQuery_untyped D Q (map_option (map Some) (table_columns Q qn)) qn
     = syncTableColumnsToQuery D Q qn"
  by (cases "table_columns Q qn")
    (simp_all add: syncTableColumnsToQuery_untyped_def syncTableColumnsToQuery_def
      syncTableColumnsToQuery_loop_untyped_objects Let_def split: Query.splits)

lemma syncTableColumnsToQuery_loop_untyped_null:
  "None \<in> set entries
     \<Longrightarrow> syncTableColumnsToQuery_loop_untyped D Q dims names entries q warned = Inl TypeError"
proof (induction entries arbitrary: q warned)
  case Nil
  then show ?case by simp
next
  case (Cons entry rest)
  show ?case
  proof (cases entry)
    case None
    then show ?thesis by simp
  next
    case (Some columnSetting)
    with Cons.prems have "None \<in> set rest" by simp
    then have "syncTableColumnsToQuery_loop_untyped D Q dims names rest q' warned' = Inl TypeError"
      for q' warned'
      by (rule Cons.IH)
    with Some show ?thesis
      by (simp add: Let_def split: option.splits)
  qed
qed

lemma map_Some_the: "None \<notin> set entries \<Longrightarrow> map Some (map the entries) = entries"
  by (induction entries) auto

text \<open>
  C9, as the code has it. On inputs of the declared types, in particular a
  \<^verbatim>\<open>table.columns\<close> array whose entries are all \<^verbatim>\<open>ColumnSetting\<close> objects, no function of the
  module raises an error on settings that are malformed or cannot be resolved.
  \<^verbatim>\<open>fieldRefForColumn\<close> answers \<^verbatim>\<open>null\<close> when nothing resolves;
  \<^verbatim>\<open>findColumnIndexForColumnSetting\<close> answers \<open>-1\<close> (exactly when neither path matches) or
  an index of the array, and \<^verbatim>\<open>findColumnForColumnSetting\<close> answers \<^verbatim>\<open>null\<close> for \<open>-1\<close> and
  the column at the index otherwise. In \<^verbatim>\<open>syncTableColumnsToQuery\<close>, when every baseline name
  has its dimension, the loop ends normally for every list of settings: an enabled setting
  with no \<^verbatim>\<open>fieldRef\<close> and no name among the baseline names is reported on the console and
  contributes no field, and the settings after it are processed as if it were not there. The
  function returns a question built from all the fields of the enabled settings, and what it
  has written to the console is exactly the enabled settings that cannot be resolved, in
  their order. On an array of objects the untyped function is the typed one; a \<^verbatim>\<open>null\<close>
  entry makes the loop, and with it the function on a structured query, throw a
  \<^verbatim>\<open>TypeError\<close>.
\<close>

theorem sentinels_instead_of_exceptions:
  fixes D :: "'d DimensionLib" and Q :: "('qn, 'q, 'd) QueryLib"
  defines "unresolvable \<equiv> \<lambda>names s.
             fieldRef s = None \<and> (setting_name s = [] \<or> setting_name s \<notin> set names)"
  defines "refMatch \<equiv> \<lambda>col s.
             normalizeFieldRef D (fieldRef s) \<noteq> None
             \<and> normalizeFieldRef D (fieldRefForColumn col None) = normalizeFieldRef D (fieldRef s)"
  defines "built \<equiv> \<lambda>sq settings.
             foldl (addField Q) (clearFields Q sq)
               (settingFields D (columnDimensions Q (clearFields Q sq))
                  (columnNames Q (clearFields Q sq)) settings)"
  shows
    "(id_field column = None \<and> expression_name column = None
        \<and> (\<forall>cs. columns = Some cs
               \<longrightarrow> source column \<noteq> Some ''aggregation'' \<or> column \<notin> set cs)
      \<longrightarrow> fieldRefForColumn column columns = None)
     \<and> (findColumnIndexForColumnSetting D cols s = -1
          \<or> (0 \<le> findColumnIndexForColumnSetting D cols s
              \<and> findColumnIndexForColumnSetting D cols s < int (length cols)))
     \<and> (findColumnIndexForColumnSetting D cols s = -1
          \<longleftrightarrow> (\<forall>col \<in> set cols. \<not> refMatch col s \<and> name col \<noteq> setting_name s))
     \<and> findColumnForColumnSetting D cols s
          = (if findColumnIndexForColumnSetting D cols s = -1 then None
             else Some (cols ! nat (findColumnIndexForColumnSetting D cols s)))
     \<and> (length names \<le> length dims
          \<longrightarrow> syncTableColumnsToQuery_loop D Q dims names settings q warned
                = Inr (foldl (addField Q) q (settingFields D dims names settings),
                       warned @ filter (\<lambda>s. enabled s \<and> unresolvable names s) settings))
     \<and> (length names \<le> length dims \<and> unresolvable names s
          \<longrightarrow> settingFields D dims names (pre @ s # post)
                = settingFields D dims names (pre @ post))
     \<and> (table_columns Q qn = Some settings \<and> query Q qn = StructuredQuery sq
          \<and> length (columnNames Q (clearFields Q sq))
              \<le> length (columnDimensions Q (clearFields Q sq))
          \<longrightarrow> (\<exists>qn'. syncTableColumnsToQuery D Q qn
                     = Inr (qn', filter (\<lambda>s. enabled s
                                  \<and> unresolvable (columnNames Q (clearFields Q sq)) s) settings)
                   \<and> (qn' = question Q (built sq settings)
                        \<or> qn' = question Q (clearFields Q (built sq settings)))))
     \<and> ((\<forall>q. query Q qn = StructuredQuery q
              \<longrightarrow> length (columnNames Q (clearFields Q q))
                    \<le> length (columnDimensions Q (clearFields Q q)))
          \<longrightarrow> (\<exists>qn' warned'. syncTableColumnsToQuery D Q qn = Inr (qn', warned')))
     \<and> syncTableColumnsToQuery_untyped D Q (map_option (map Some) (table_columns Q qn)) qn
          = syncTableColumnsToQuery D Q qn
     \<and> (None \<notin> set entries
          \<longrightarrow> syncTableColumnsToQuery_loop_untyped D Q dims names entries q warned
                = syncTableColumnsToQuery_loop D Q dims names (map the entries) q warned)
     \<and> (None \<in> set entries
          \<longrightarrow> syncTableColumnsToQuery_loop_untyped D Q dims names entries q warned
                = Inl TypeError)
     \<and> (None \<in> set entries \<and> query Q qn = StructuredQuery sq
          \<longrightarrow> syncTableColumnsToQuery_untyped D Q (Some entries) qn = Inl TypeError)"
proof -
  have ref: "fieldRefForColumn column columns = None"
    if "id_field column = None" "expression_name column = None"
      "\<forall>cs. columns = Some cs \<longrightarrow> source column \<noteq> Some ''aggregation'' \<or> column \<notin> set cs"
  proof (cases columns)
    case None
    with that show ?thesis by (simp add: fieldRefForColumn_def)
  next
    case (Some cs)
    show ?thesis
    proof (cases "source column = Some ''aggregation''")
      case False
      with that Some show ?thesis by (simp add: fieldRefForColumn_def)
    next
      case True
      with that Some have "column \<notin> set cs" by simp
      then have "indexOf (filter (\<lambda>c. source c = Some ''aggregation'') cs) column = -1"
        unfolding indexOf_def by (intro findIndexFrom_none) auto
      with that Some True show ?thesis by (simp add: fieldRefForColumn_def)
    qed
  qed
  have minus1: "findColumnIndexForColumnSetting D cols s = -1
      \<longleftrightarrow> (\<forall>col \<in> set cols. \<not> refMatch col s \<and> name col \<noteq> setting_name s)"
  proof (cases "normalizeFieldRef D (fieldRef s)")
    case None
    then show ?thesis
      by (simp add: findColumnIndexForColumnSetting_def findIndex_minus1_iff refMatch_def)
  next
    case (Some r)
    let ?byRef = "findIndex cols
        (\<lambda>col. case normalizeFieldRef D (fieldRefForColumn col None) of
                 Some r' \<Rightarrow> isEqual r r' | None \<Rightarrow> False)"
    have byRef: "?byRef = -1 \<longleftrightarrow> (\<forall>col \<in> set cols. \<not> refMatch col s)"
      using Some by (auto simp: findIndex_minus1_iff refMatch_def isEqual_iff split: option.splits)
    have result: "findColumnIndexForColumnSetting D cols s
        = (if ?byRef \<ge> 0 then ?byRef else findIndex cols (\<lambda>col. name col = setting_name s))"
      using Some by (simp add: findColumnIndexForColumnSetting_def)
    have "?byRef = -1 \<or> 0 \<le> ?byRef"
      using findIndex_range [of cols] by blast
    then show ?thesis
    proof
      assume none: "?byRef = -1"
      then have "findColumnIndexForColumnSetting D cols s
          = findIndex cols (\<lambda>col. name col = setting_name s)"
        using result by simp
      moreover have "\<forall>col \<in> set cols. \<not> refMatch col s"
        using none byRef by simp
      ultimately show ?thesis
        by (auto simp: findIndex_minus1_iff)
    next
      assume found: "0 \<le> ?byRef"
      then have "findColumnIndexForColumnSetting D cols s \<noteq> -1"
        using result by simp
      moreover have "\<not> (\<forall>col \<in> set cols. \<not> refMatch col s)"
        using found byRef by auto
      ultimately show ?thesis by blast
    qed
  qed
  have col: "findColumnForColumnSetting D cols s
      = (if findColumnIndexForColumnSetting D cols s = -1 then None
         else Some (cols ! nat (findColumnIndexForColumnSetting D cols s)))"
    using findColumnIndexForColumnSetting_range [of D cols s]
    by (auto simp: findColumnForColumnSetting_def Let_def)
  have unknown: "unknownSettings D dims names settings
      = filter (\<lambda>s. enabled s \<and> unresolvable names s) settings"
    if "length names \<le> length dims" for dims :: "'d list" and names settings
    unfolding unknownSettings_def unresolvable_def
    by (rule filter_cong) (simp_all add: settingField_None_iff [OF that])
  have loop: "syncTableColumnsToQuery_loop D Q dims names settings q warned
      = Inr (foldl (addField Q) q (settingFields D dims names settings),
             warned @ filter (\<lambda>s. enabled s \<and> unresolvable names s) settings)"
    if "length names \<le> length dims"
    using that by (simp add: syncTableColumnsToQuery_loop_eq unknown)
  have skip: "settingFields D dims names (pre @ s # post) = settingFields D dims names (pre @ post)"
    if "length names \<le> length dims" "unresolvable names s"
    using that by (intro settingFields_skip) (simp add: settingField_None_iff unresolvable_def)
  have top: "\<exists>qn'. syncTableColumnsToQuery D Q qn
        = Inr (qn', filter (\<lambda>s. enabled s
                     \<and> unresolvable (columnNames Q (clearFields Q sq)) s) settings)
      \<and> (qn' = question Q (built sq settings)
           \<or> qn' = question Q (clearFields Q (built sq settings)))"
    if "table_columns Q qn = Some settings" "query Q qn = StructuredQuery sq"
      "length (columnNames Q (clearFields Q sq)) \<le> length (columnDimensions Q (clearFields Q sq))"
    using that
    by (simp add: syncTableColumnsToQuery_def syncTableColumnsToQuery_loop_eq Let_def built_def
        unknown [OF that(3)])
  have total: "\<exists>qn' warned'. syncTableColumnsToQuery D Q qn = Inr (qn', warned')"
    if "\<forall>q. query Q qn = StructuredQuery q
           \<longrightarrow> length (columnNames Q (clearFields Q q)) \<le> length (columnDimensions Q (clearFields Q q))"
    using that
    by (auto simp: syncTableColumnsToQuery_def syncTableColumnsToQuery_loop_eq Let_def
        split: option.splits Query.splits)
  have objects: "syncTableColumnsToQuery_loop_untyped D Q dims names entries q warned
      = syncTableColumnsToQuery_loop D Q dims names (map the entries) q warned"
    if "None \<notin> set entries"
    using syncTableColumnsToQuery_loop_untyped_objects [of D Q dims names "map the entries" q warned]
    by (simp only: map_Some_the [OF that])
  have null_loop: "syncTableColumnsToQuery_loop_untyped D Q dims names entries q warned
      = Inl TypeError"
    if "None \<in> set entries"
    using that by (rule syncTableColumnsToQuery_loop_untyped_null)
  have null_top: "syncTableColumnsToQuery_untyped D Q (Some entries) qn = Inl TypeError"
    if "None \<in> set entries" "query Q qn = StructuredQuery sq"
    using that
    by (simp add: syncTableColumnsToQuery_untyped_def syncTableColumnsToQuery_loop_untyped_null
        Let_def)
  show ?thesis
  proof (intro conjI impI)
    show "findColumnIndexForColumnSetting D cols s = -1
        \<or> (0 \<le> findColumnIndexForColumnSetting D cols s
            \<and> findColumnIndexForColumnSetting D cols s < int (length cols))"
      by (rule findColumnIndexForColumnSetting_range)
    show "syncTableColumnsToQuery_untyped D Q (map_option (map Some) (table_columns Q qn)) qn
        = syncTableColumnsToQuery D Q qn"
      by (rule syncTableColumnsToQuery_untyped_objects)
  qed (use ref minus1 col loop skip top total objects null_loop null_top in blast)+
qed

text \<open>
  On the examples: a bare column has no reference, the unknown setting finds no column, the
  loop reports the unknown setting and goes on to add the field \<open>a\<close>, and the function
  returns the unknown setting as its console output; with a \<^verbatim>\<open>null\<close> entry after the two
  settings the untyped function throws.
\<close>

theorem sentinels_instead_of_exceptions_witness:
  "fieldRefForColumn bareColumn (Some exampleColumns) = None
   \<and> findColumnIndexForColumnSetting exampleDimensions exampleColumns unknownSetting = -1
   \<and> findColumnForColumnSetting exampleDimensions exampleColumns unknownSetting = None
   \<and> syncTableColumnsToQuery_loop exampleDimensions exampleQueries exampleTable
        (map exampleName exampleTable) mixedSettings \<lparr>fieldList = [], ownerSettings = None\<rparr> []
      = Inr (\<lparr>fieldList = [[JStr ''field-id'', JNum 1]], ownerSettings = None\<rparr>, [unknownSetting])
   \<and> (\<exists>qn'. syncTableColumnsToQuery exampleDimensions exampleQueries
          (exampleQuestion [] (Some mixedSettings)) = Inr (qn', [unknownSetting]))
   \<and> syncTableColumnsToQuery_untyped exampleDimensions exampleQueries
        (Some (map Some mixedSettings)) (exampleQuestion [] (Some mixedSettings))
      = syncTableColumnsToQuery exampleDimensions exampleQueries
          (exampleQuestion [] (Some mixedSettings))
   \<and> syncTableColumnsToQuery_untyped exampleDimensions exampleQueries
        (Some (map Some mixedSettings @ [None])) (exampleQuestion [] (Some mixedSettings))
      = Inl TypeError"
proof -
  note inst = sentinels_instead_of_exceptions
    [where D = exampleDimensions and Q = exampleQueries and column = bareColumn
      and columns = "Some exampleColumns" and cols = exampleColumns and s = unknownSetting
      and names = "map exampleName exampleTable" and dims = exampleTable
      and settings = mixedSettings and q = "\<lparr>fieldList = [], ownerSettings = None\<rparr>"
      and warned = "[]" and pre = "[]" and post = "[]"
      and qn = "exampleQuestion [] (Some mixedSettings)"
      and sq = "\<lparr>fieldList = [], ownerSettings = Some mixedSettings\<rparr>"
      and entries = "map Some mixedSettings @ [None]"]
  have fields: "settingFields exampleDimensions exampleTable (map exampleName exampleTable)
      mixedSettings = [[JStr ''field-id'', JNum 1]]"
    by (simp add: settingFields_def settingField_def List.map_filter_simps mixedSettings_def
        unknownSetting_def exampleTable_def exampleName_def exampleDimensions_def)
  have unknown: "filter (\<lambda>s. enabled s \<and> fieldRef s = None
        \<and> (setting_name s = [] \<or> setting_name s \<notin> set (map exampleName exampleTable)))
      mixedSettings = [unknownSetting]"
    by (simp add: mixedSettings_def unknownSetting_def exampleTable_def exampleName_def)
  have "fieldRefForColumn bareColumn (Some exampleColumns) = None"
    using inst by (simp add: bareColumn_def)
  moreover have "findColumnIndexForColumnSetting exampleDimensions exampleColumns unknownSetting = -1"
    using inst
    by (simp add: exampleColumns_def unknownSetting_def bareColumn_def exampleDimensions_def
        normalizeFieldRef_def)
  moreover from this
  have "findColumnForColumnSetting exampleDimensions exampleColumns unknownSetting = None"
    using inst by simp
  moreover have "syncTableColumnsToQuery_loop exampleDimensions exampleQueries exampleTable
        (map exampleName exampleTable) mixedSettings \<lparr>fieldList = [], ownerSettings = None\<rparr> []
      = Inr (\<lparr>fieldList = [[JStr ''field-id'', JNum 1]], ownerSettings = None\<rparr>, [unknownSetting])"
    using inst
    by (simp add: fields)
      (simp add: mixedSettings_def unknownSetting_def exampleTable_def exampleName_def
        exampleQueries_def)
  moreover have "\<exists>qn'. syncTableColumnsToQuery exampleDimensions exampleQueries
          (exampleQuestion [] (Some mixedSettings)) = Inr (qn', [unknownSetting])"
  proof -
    have "table_columns exampleQueries (exampleQuestion [] (Some mixedSettings))
        = Some mixedSettings"
      and "query exampleQueries (exampleQuestion [] (Some mixedSettings))
        = StructuredQuery \<lparr>fieldList = [], ownerSettings = Some mixedSettings\<rparr>"
      and "columnNames exampleQueries
          (clearFields exampleQueries \<lparr>fieldList = [], ownerSettings = Some mixedSettings\<rparr>)
        = map exampleName exampleTable"
      and "columnDimensions exampleQueries
          (clearFields exampleQueries \<lparr>fieldList = [], ownerSettings = Some mixedSettings\<rparr>)
        = exampleTable"
      by (simp_all add: exampleQueries_def exampleQuestion_def)
    with inst unknown show ?thesis by auto
  qed
  moreover have "syncTableColumnsToQuery_untyped exampleDimensions exampleQueries
        (Some (map Some mixedSettings)) (exampleQuestion [] (Some mixedSettings))
      = syncTableColumnsToQuery exampleDimensions exampleQueries
          (exampleQuestion [] (Some mixedSettings))"
    using inst by (simp add: exampleQueries_def exampleQuestion_def)
  moreover have "syncTableColumnsToQuery_untyped exampleDimensions exampleQueries
        (Some (map Some mixedSettings @ [None])) (exampleQuestion [] (Some mixedSettings))
      = Inl TypeError"
    using inst by (simp add: exampleQueries_def exampleQuestion_def)
  ultimately show ?thesis by simp
qed

text \<open>
  C9 as it is stated fails: \<^verbatim>\<open>table.columns\<close> holding a \<^verbatim>\<open>null\<close> entry, alone or after an
  unknown setting, makes \<^verbatim>\<open>syncTableColumnsToQuery\<close> on a structured query throw a
  \<^verbatim>\<open>TypeError\<close> instead of skipping the entry.
\<close>

theorem sentinels_instead_of_exceptions_counterexample:
  "syncTableColumnsToQuery_untyped exampleDimensions exampleQueries (Some [None])
      (exampleQuestion [] None) = Inl TypeError
   \<and> syncTableColumnsToQuery_untyped exampleDimensions exampleQueries
      (Some [Some unknownSetting, None]) (exampleQuestion [] None) = Inl TypeError"
  by (simp add: syncTableColumnsToQuery_untyped_def exampleQueries_def exampleQuestion_def
      unknownSetting_def exampleTable_def exampleName_def findIndex_def)

section \<open>Keys of columns\<close>

declare digitsOf.simps [simp del]

lemma of_char_digitChar: "n < 10 \<Longrightarrow> (of_char (digitChar n) :: nat) = 48 + n"
  by (simp add: digitChar_def)

lemma isDigit_digitChar: "n < 10 \<Longrightarrow> isDigit (digitChar n)"
  by (simp add: isDigit_def of_char_digitChar)

lemma digitsOf_digits: "c \<in> set (digitsOf n) \<Longrightarrow> isDigit c"
proof (induction n rule: digitsOf.induct)
  case (1 n)
  show ?case
  proof (cases "n < 10")
    case True
    with "1.prems" show ?thesis
      by (simp add: digitsOf.simps [of n] isDigit_digitChar)
  next
    case False
    with "1.prems" "1.IH" show ?thesis
      by (auto simp: digitsOf.simps [of n] isDigit_digitChar)
  qed
qed

lemma digitsOf_nonempty: "digitsOf n \<noteq> []"
  by (subst digitsOf.simps) simp

lemma parseNat_snoc: "parseNat (s @ [c]) = 10 * parseNat s + (of_char c - 48)"
  by (simp add: parseNat_def)

lemma parseNat_digitsOf: "parseNat (digitsOf n) = n"
proof (induction n rule: digitsOf.induct)
  case (1 n)
  show ?case
  proof (cases "n < 10")
    case True
    then show ?thesis
      by (simp add: digitsOf.simps [of n] parseNat_def of_char_digitChar)
  next
    case False
    with "1.IH" show ?thesis
      by (simp add: digitsOf.simps [of n] parseNat_snoc of_char_digitChar)
  qed
qed

lemma delimited_not_digit: "delimited (c # r) \<Longrightarrow> \<not> isDigit c"
  by (auto simp: delimited_def isDigit_def)

lemma takeWhile_digitsOf:
  assumes "delimited r"
  shows "takeWhile isDigit (digitsOf n @ r) = digitsOf n"
proof (cases r)
  case Nil
  then show ?thesis by (simp add: digitsOf_digits)
next
  case (Cons c r')
  with assms have "\<not> isDigit c" by (simp add: delimited_not_digit)
  with Cons show ?thesis
    by (simp add: takeWhile_append2 digitsOf_digits)
qed

lemma digitsOf_unique:
  assumes "delimited r" and "delimited r'" and "digitsOf m @ r = digitsOf n @ r'"
  shows "m = n \<and> r = r'"
proof -
  have "digitsOf m = takeWhile isDigit (digitsOf m @ r)"
    by (simp only: takeWhile_digitsOf [OF assms(1)])
  also have "\<dots> = takeWhile isDigit (digitsOf n @ r')"
    by (simp only: assms(3))
  also have "\<dots> = digitsOf n"
    by (rule takeWhile_digitsOf [OF assms(2)])
  finally have same: "digitsOf m = digitsOf n" .
  then have "parseNat (digitsOf m) = parseNat (digitsOf n)"
    by (rule arg_cong)
  then have "m = n"
    by (simp only: parseNat_digitsOf)
  moreover have "r = r'"
    using assms(3) same by simp
  ultimately show ?thesis by simp
qed

lemma hd_digitsOf: "\<exists>c cs. digitsOf n = c # cs \<and> isDigit c"
  using digitsOf_nonempty [of n] digitsOf_digits [of _ n]
  by (cases "digitsOf n") auto

lemma numberToString_unique:
  assumes "delimited r" and "delimited r'" and "numberToString i @ r = numberToString j @ r'"
  shows "i = j \<and> r = r'"
proof -
  have minus: "\<not> isDigit (CHR ''-'')" by (simp add: isDigit_def)
  consider "i < 0" "j < 0" | "i < 0" "\<not> j < 0" | "\<not> i < 0" "j < 0" | "\<not> i < 0" "\<not> j < 0"
    by blast
  then show ?thesis
  proof cases
    case 1
    with assms(3) have "digitsOf (nat (- i)) @ r = digitsOf (nat (- j)) @ r'"
      by (simp add: numberToString_def)
    from digitsOf_unique [OF assms(1,2) this] 1 show ?thesis by auto
  next
    case 2
    with assms(3) hd_digitsOf [of "nat j"] minus show ?thesis
      by (auto simp: numberToString_def)
  next
    case 3
    with assms(3) hd_digitsOf [of "nat i"] minus show ?thesis
      by (auto simp: numberToString_def)
  next
    case 4
    with assms(3) have "digitsOf (nat i) @ r = digitsOf (nat j) @ r'"
      by (simp add: numberToString_def)
    from digitsOf_unique [OF assms(1,2) this] 4 show ?thesis by auto
  qed
qed


lemma hexVal_hexDigit: "n < 16 \<Longrightarrow> hexVal (hexDigit n) = n"
  by (simp add: hexVal_def hexDigit_def)

lemma unescape_escapeChar: "unescape (escapeChar c @ x) = Some (c, x)"
proof (cases "(of_char c :: nat) < 0x20")
  case False
  then have "c \<noteq> CHR 0x08" "c \<noteq> CHR 0x09" "c \<noteq> CHR 0x0A" "c \<noteq> CHR 0x0C" "c \<noteq> CHR 0x0D"
    by auto
  with False show ?thesis
    by (simp add: escapeChar_def)
next
  case True
  then have small: "of_char c div 16 < (16::nat)" "of_char c mod 16 < (16::nat)"
    by simp_all
  have again: "char_of (16 * (of_char c div 16) + of_char c mod 16 :: nat) = c"
    by simp
  from True have "c \<noteq> CHR 0x22" "c \<noteq> CHR 0x5C"
    by auto
  then show ?thesis
    using True again by (simp add: escapeChar_def hexVal_hexDigit [OF small(1)] hexVal_hexDigit [OF small(2)])
qed

lemma escapeChar_hd: "\<exists>e es. escapeChar c = e # es \<and> e \<noteq> CHR 0x22"
  by (simp add: escapeChar_def)

lemma escaped_unique:
  "concat (map escapeChar s) @ CHR 0x22 # r = concat (map escapeChar t) @ CHR 0x22 # r'
     \<Longrightarrow> s = t \<and> r = r'"
proof (induction s arbitrary: t)
  case Nil
  show ?case
  proof (cases t)
    case Nil
    with Nil.prems show ?thesis by simp
  next
    case (Cons d t')
    with Nil.prems escapeChar_hd [of d] show ?thesis by auto
  qed
next
  case (Cons c s')
  show ?case
  proof (cases t)
    case Nil
    with Cons.prems escapeChar_hd [of c] show ?thesis by auto
  next
    case (Cons d t')
    let ?x = "concat (map escapeChar s') @ CHR 0x22 # r"
    let ?y = "concat (map escapeChar t') @ CHR 0x22 # r'"
    from Cons.prems Cons have "escapeChar c @ ?x = escapeChar d @ ?y"
      by simp
    then have "unescape (escapeChar c @ ?x) = unescape (escapeChar d @ ?y)"
      by (rule arg_cong)
    then have "c = d" and "?x = ?y"
      by (simp_all only: unescape_escapeChar option.inject prod.inject)
    with Cons.IH [of t'] Cons show ?thesis by simp
  qed
qed

lemma quoteJSONString_unique:
  "quoteJSONString s @ r = quoteJSONString t @ r' \<Longrightarrow> s = t \<and> r = r'"
  using escaped_unique [of s r t r'] by (simp add: quoteJSONString_def)

lemma stringify_hd:
  "\<exists>c cs. stringify a = c # cs \<and> c \<noteq> CHR '']'' \<and> c \<noteq> CHR '',''
     \<and> (case a of JNull \<Rightarrow> c = CHR ''n'' | JNum _ \<Rightarrow> c = CHR ''-'' \<or> isDigit c
         | JStr _ \<Rightarrow> c = CHR 0x22 | JArr _ \<Rightarrow> c = CHR ''['')"
proof (cases a)
  case (JNum i)
  from hd_digitsOf [of "nat i"] obtain c cs where "digitsOf (nat i) = c # cs" "isDigit c"
    by blast
  moreover from this have "c \<noteq> CHR '']''" "c \<noteq> CHR '',''"
    by (auto simp: isDigit_def)
  ultimately show ?thesis
    using JNum by (simp add: numberToString_def)
qed (simp_all add: quoteJSONString_def)

lemma joinComma_stringify: "joinComma (stringify x # map stringify xs) = stringify x @ elems xs"
  by (induction xs arbitrary: x) (simp_all add: elems_def)

lemma delimited_elems: "delimited (elems xs @ CHR '']'' # r)"
  by (cases xs) (simp_all add: elems_def delimited_def)

lemma elems_unique:
  assumes "\<And>x b r r'. x \<in> set xs \<Longrightarrow> delimited r \<Longrightarrow> delimited r'
             \<Longrightarrow> stringify x @ r = stringify b @ r' \<Longrightarrow> x = b \<and> r = r'"
    and "elems xs @ CHR '']'' # r = elems ys @ CHR '']'' # r'"
  shows "xs = ys \<and> r = r'"
  using assms
proof (induction xs arbitrary: ys)
  case Nil
  then show ?case by (cases ys) (simp_all add: elems_def)
next
  case (Cons x xs')
  show ?case
  proof (cases ys)
    case Nil
    with Cons.prems(2) show ?thesis by (simp add: elems_def)
  next
    case (Cons y ys')
    with Cons.prems(2)
    have eq: "stringify x @ (elems xs' @ CHR '']'' # r) = stringify y @ (elems ys' @ CHR '']'' # r')"
      by (simp add: elems_def)
    have "x = y \<and> elems xs' @ CHR '']'' # r = elems ys' @ CHR '']'' # r'"
      by (rule Cons.prems(1) [OF _ delimited_elems delimited_elems eq]) simp
    moreover from this have "xs' = ys' \<and> r = r'"
      using Cons.prems(1) by (intro Cons.IH) auto
    ultimately show ?thesis using Cons by simp
  qed
qed

lemma stringify_unique:
  "delimited r \<Longrightarrow> delimited r' \<Longrightarrow> stringify a @ r = stringify b @ r' \<Longrightarrow> a = b \<and> r = r'"
proof (induction a arbitrary: b r r')
  case JNull
  with stringify_hd [of b] show ?case
    by (cases b) (auto simp: isDigit_def)
next
  case (JNum i)
  show ?case
  proof (cases b)
    case (JNum j)
    with JNum.prems numberToString_unique [of r r' i j] show ?thesis by simp
  next
    case JNull
    with JNum.prems stringify_hd [of "JNum i"] show ?thesis by (auto simp: isDigit_def)
  next
    case (JStr t)
    with JNum.prems stringify_hd [of "JNum i"] stringify_hd [of b] show ?thesis
      by (auto simp: isDigit_def)
  next
    case (JArr ys)
    with JNum.prems stringify_hd [of "JNum i"] show ?thesis by (auto simp: isDigit_def)
  qed
next
  case (JStr s)
  show ?case
  proof (cases b)
    case (JStr t)
    with JStr.prems quoteJSONString_unique [of s r t r'] show ?thesis by simp
  next
    case JNull
    with JStr.prems show ?thesis by (simp add: quoteJSONString_def)
  next
    case (JNum j)
    with JStr.prems stringify_hd [of b] show ?thesis
      by (auto simp: isDigit_def quoteJSONString_def)
  next
    case (JArr ys)
    with JStr.prems show ?thesis by (simp add: quoteJSONString_def)
  qed
next
  case (JArr xs)
  show ?case
  proof (cases b)
    case JNull
    with JArr.prems show ?thesis by simp
  next
    case (JNum j)
    with JArr.prems stringify_hd [of b] show ?thesis by (auto simp: isDigit_def)
  next
    case (JStr t)
    with JArr.prems show ?thesis by (simp add: quoteJSONString_def)
  next
    case b: (JArr ys)
    show ?thesis
    proof (cases xs)
      case Nil
      show ?thesis
      proof (cases ys)
        case Nil
        with \<open>xs = []\<close> b JArr.prems show ?thesis by simp
      next
        case (Cons y ys')
        with \<open>xs = []\<close> b JArr.prems stringify_hd [of y] show ?thesis by auto
      qed
    next
      case xs: (Cons x xs')
      show ?thesis
      proof (cases ys)
        case Nil
        with xs b JArr.prems stringify_hd [of x] show ?thesis by auto
      next
        case ys: (Cons y ys')
        from JArr.prems(3) b xs ys
        have eq: "stringify x @ (elems xs' @ CHR '']'' # r)
            = stringify y @ (elems ys' @ CHR '']'' # r')"
          by (simp add: joinComma_stringify del: joinComma.simps)
        have "x = y \<and> elems xs' @ CHR '']'' # r = elems ys' @ CHR '']'' # r'"
          using xs by (intro JArr.IH [OF _ delimited_elems delimited_elems eq]) simp
        moreover from this have "xs' = ys' \<and> r = r'"
          using xs JArr.IH by (intro elems_unique [of xs' r ys' r']) auto
        ultimately show ?thesis using b xs ys by simp
      qed
    qed
  qed
qed

lemma stringify_inj: "stringify a = stringify b \<longleftrightarrow> a = b"
  using stringify_unique [of "[]" "[]" a b] by (auto simp: delimited_def)


lemma keyForColumn_eq_iff:
  "keyForColumn c = keyForColumn c'
   \<longleftrightarrow> fieldRefForColumn c None = fieldRefForColumn c' None
       \<and> (fieldRefForColumn c None = None \<longrightarrow> name c = name c')"
  by (simp add: keyForColumn_def stringify_inj del: stringify.simps split: option.splits)

text \<open>
  The keys of a field column and of a column without a reference, as
  \<^verbatim>\<open>JSON.stringify\<close> writes them: \<^verbatim>\<open>["ref",["field-id",7]]\<close> and \<^verbatim>\<open>["name","count"]\<close>.
\<close>

lemma keyForColumn_examples:
  "keyForColumn (bareColumn\<lparr>id_field := Some (FieldId 7)\<rparr>)
     = ''['' @ [CHR 0x22] @ ''ref'' @ [CHR 0x22] @ '',['' @ [CHR 0x22] @ ''field-id''
       @ [CHR 0x22] @ '',7]]''"
  "keyForColumn bareColumn
     = ''['' @ [CHR 0x22] @ ''name'' @ [CHR 0x22] @ '','' @ [CHR 0x22] @ ''count''
       @ [CHR 0x22] @ '']''"
  by (simp_all add: keyForColumn_def fieldRefForColumn_def bareColumn_def quoteJSONString_def
      escapeChar_def numberToString_def digitsOf.simps digitChar_def char_of_eq_iff)

text \<open>
  C5. Two columns whose references (from \<^verbatim>\<open>fieldRefForColumn\<close> without the columns) are
  both resolvable and differ have different keys, and two columns with the same reference
  have the same key; two columns with no resolvable reference and the same name have the same
  key.
\<close>

theorem keyForColumn_injective:
  "(fieldRefForColumn c None = Some r \<and> fieldRefForColumn c' None = Some r' \<and> r \<noteq> r'
      \<longrightarrow> keyForColumn c \<noteq> keyForColumn c')
   \<and> (fieldRefForColumn c None = Some r \<and> fieldRefForColumn c' None = Some r
      \<longrightarrow> keyForColumn c = keyForColumn c')
   \<and> (fieldRefForColumn c None = None \<and> fieldRefForColumn c' None = None \<and> name c = name c'
      \<longrightarrow> keyForColumn c = keyForColumn c')"
proof (intro conjI impI)
  assume "fieldRefForColumn c None = Some r \<and> fieldRefForColumn c' None = Some r' \<and> r \<noteq> r'"
  moreover have "stringify (JArr [JStr ''ref'', JArr r]) \<noteq> stringify (JArr [JStr ''ref'', JArr r'])"
    if "r \<noteq> r'"
    using that by (simp only: stringify_inj) simp
  ultimately show "keyForColumn c \<noteq> keyForColumn c'"
    by (simp add: keyForColumn_def del: stringify.simps)
next
  assume "fieldRefForColumn c None = Some r \<and> fieldRefForColumn c' None = Some r"
  then show "keyForColumn c = keyForColumn c'"
    by (simp add: keyForColumn_def)
next
  assume "fieldRefForColumn c None = None \<and> fieldRefForColumn c' None = None \<and> name c = name c'"
  then show "keyForColumn c = keyForColumn c'"
    by (simp add: keyForColumn_def)
qed

text \<open>
  The two example columns have different keys, and two aggregation columns named
  \<open>count\<close>, which have no reference without the columns array, share their key.
\<close>

theorem keyForColumn_injective_witness:
  "keyForColumn (exampleColumns ! 0) \<noteq> keyForColumn (exampleColumns ! 1)
   \<and> keyForColumn (bareColumn\<lparr>oid := 1, source := Some ''aggregation''\<rparr>)
     = keyForColumn (bareColumn\<lparr>oid := 2, source := Some ''aggregation''\<rparr>)"
proof -
  have "keyForColumn (exampleColumns ! 0) \<noteq> keyForColumn (exampleColumns ! 1)"
    using keyForColumn_injective
      [of "exampleColumns ! 0" "[JStr ''field-id'', JNum 1]" "exampleColumns ! 1"
        "[JStr ''fk->'', JNum 5, JNum 2]"]
    by (simp add: exampleColumns_def bareColumn_def fieldRefForColumn_def)
  moreover have "keyForColumn (bareColumn\<lparr>oid := 1, source := Some ''aggregation''\<rparr>)
      = keyForColumn (bareColumn\<lparr>oid := 2, source := Some ''aggregation''\<rparr>)"
    using keyForColumn_injective
      [of "bareColumn\<lparr>oid := 1, source := Some ''aggregation''\<rparr>" _
        "bareColumn\<lparr>oid := 2, source := Some ''aggregation''\<rparr>"]
    by (simp add: bareColumn_def fieldRefForColumn_def)
  ultimately show ?thesis by simp
qed

end
